theory Spec2Isabelle
  imports Main "HOL-Library.Sublist" "HOL-Library.AList"
begin

section \<open>Python strings\<close>

text \<open>
  A Python \<open>str\<close> is a sequence of Unicode code points; it is modelled as a list of
  natural numbers, one per code point.  ASCII literals of the scripts are written
  \<open>ascii ''...''\<close>; the Chinese literals are given by their code points.
\<close>

type_synonym pystr = "nat list"

definition ascii :: "string \<Rightarrow> pystr" where
  "ascii s = map of_char s"

datatype py_exc = IndexError | KeyError | ValueError | TypeError

text \<open>\<open>xs[i]\<close> for a non-negative index: out of range raises \<open>IndexError\<close>.\<close>

definition py_index :: "'a list \<Rightarrow> nat \<Rightarrow> py_exc + 'a" where
  "py_index xs i = (if i < length xs then Inr (xs ! i) else Inl IndexError)"

text \<open>\<open>s.split(sep)\<close> for a one-character separator: never empty, keeps empty fields.\<close>

fun split_on :: "'a \<Rightarrow> 'a list \<Rightarrow> 'a list list" where
  "split_on sep [] = [[]]"
| "split_on sep (c # cs) =
     (if c = sep then [] # split_on sep cs
      else (case split_on sep cs of
              [] \<Rightarrow> [[c]]
            | field # fields \<Rightarrow> (c # field) # fields))"

text \<open>\<open>s.strip(chars)\<close>: drop the characters of a class at both ends.\<close>

definition strip_chars :: "('a \<Rightarrow> bool) \<Rightarrow> 'a list \<Rightarrow> 'a list" where
  "strip_chars P s = rev (dropWhile P (rev (dropWhile P s)))"

text \<open>The code points for which \<open>str.isspace\<close> holds; \<open>s.strip()\<close> removes exactly these.\<close>

definition is_space :: "nat \<Rightarrow> bool" where
  "is_space c \<longleftrightarrow>
     (9 \<le> c \<and> c \<le> 13) \<or> (28 \<le> c \<and> c \<le> 32) \<or> c = 0x85 \<or> c = 0xA0 \<or> c = 0x1680 \<or>
     (0x2000 \<le> c \<and> c \<le> 0x200A) \<or> c = 0x2028 \<or> c = 0x2029 \<or> c = 0x202F \<or>
     c = 0x205F \<or> c = 0x3000"

definition strip :: "pystr \<Rightarrow> pystr" where
  "strip s = strip_chars is_space s"

text \<open>\<open>s.startswith(p)\<close> and \<open>p in s\<close> (substring test).\<close>

definition startswith :: "pystr \<Rightarrow> pystr \<Rightarrow> bool" where
  "startswith s p = prefix p s"

definition str_in :: "pystr \<Rightarrow> pystr \<Rightarrow> bool" where
  "str_in p s = sublist p s"

text \<open>\<open>any(keyword in s for keyword in keywords)\<close>.\<close>

definition any_in :: "pystr list \<Rightarrow> pystr \<Rightarrow> bool" where
  "any_in keywords s = list_ex (\<lambda>keyword. str_in keyword s) keywords"

text \<open>\<open>str(n)\<close> for a non-negative integer: its decimal digits.\<close>

fun str_of_nat :: "nat \<Rightarrow> pystr" where
  "str_of_nat n = (if n < 10 then [48 + n] else str_of_nat (n div 10) @ [48 + n mod 10])"

declare str_of_nat.simps [simp del]

text \<open>\<open>sep.join(items)\<close>.\<close>

fun join :: "pystr \<Rightarrow> pystr list \<Rightarrow> pystr" where
  "join sep [] = []"
| "join sep [s] = s"
| "join sep (s # t # ss) = s @ sep @ join sep (t # ss)"

definition pipe :: nat where "pipe = 124"
definition hash :: nat where "hash = 35"
definition newline :: nat where "newline = 10"
definition separator_marker :: pystr where "separator_marker = [45, 45, 45]"

section \<open>The literal texts of the two scripts\<close>

text \<open>
  Task names, messages, keywords and configuration strings, code point by code point.
  A definition with arguments is an f-string of the source; its arguments are the
  interpolated values, already converted to text.
\<close>

definition task_env :: "pystr" where
  \<comment> \<open>environment check\<close>
  "task_env = [0x73AF, 0x5883, 0x9A8C, 0x8BC1]"

definition msg_env_ok :: "pystr" where
  \<comment> \<open>environment configured, API reachable\<close>
  "msg_env_ok = [0x73AF, 0x5883, 0x914D, 0x7F6E, 0x6B63, 0x786E, 0xFF0C] @ ascii ''API'' @ [0x8FDE, 0x63A5, 0x6210, 0x529F]"

definition task_env_error :: "pystr" where
  \<comment> \<open>environment error\<close>
  "task_env_error = [0x73AF, 0x5883, 0x9519, 0x8BEF]"

definition msg_no_token :: "pystr" where
  \<comment> \<open>GITHUB_TOKEN not set\<close>
  "msg_no_token = [0x672A, 0x914D, 0x7F6E] @ ascii '' GITHUB_TOKEN''"

definition msg_no_org :: "pystr" where
  \<comment> \<open>GITHUB_ORG not set\<close>
  "msg_no_org = [0x672A, 0x914D, 0x7F6E] @ ascii '' GITHUB_ORG''"

definition task_api_failed :: "pystr" where
  \<comment> \<open>API connection failed\<close>
  "task_api_failed = ascii ''API'' @ [0x8FDE, 0x63A5, 0x5931, 0x8D25]"

definition msg_api_unreachable :: "pystr" where
  \<comment> \<open>cannot reach the GitHub API\<close>
  "msg_api_unreachable = [0x65E0, 0x6CD5, 0x8BBF, 0x95EE] @ ascii ''GitHub API''"

definition task_branch :: "pystr" where
  \<comment> \<open>branch check\<close>
  "task_branch = [0x5206, 0x652F, 0x9A8C, 0x8BC1]"

definition msg_branch_exists :: "pystr \<Rightarrow> pystr" where
  \<comment> \<open>feature branch ... exists\<close>
  "msg_branch_exists branch_name = [0x529F, 0x80FD, 0x5206, 0x652F] @ ascii '' '' @ branch_name @ ascii '' '' @ [0x5B58, 0x5728]"

definition msg_branch_missing :: "pystr \<Rightarrow> pystr" where
  \<comment> \<open>feature branch ... does not exist\<close>
  "msg_branch_missing branch_name = [0x529F, 0x80FD, 0x5206, 0x652F] @ ascii '' '' @ branch_name @ ascii '' '' @ [0x4E0D, 0x5B58, 0x5728]"

definition task_doc :: "pystr" where
  \<comment> \<open>document check\<close>
  "task_doc = [0x6587, 0x6863, 0x9A8C, 0x8BC1]"

definition msg_doc_missing :: "pystr \<Rightarrow> pystr" where
  \<comment> \<open>label document ... does not exist\<close>
  "msg_doc_missing doc_file = [0x6807, 0x7B7E, 0x6587, 0x6863] @ ascii '' '' @ doc_file @ ascii '' '' @ [0x4E0D, 0x5B58, 0x5728]"

definition msg_doc_undecodable :: "pystr" where
  \<comment> \<open>decoding the document failed\<close>
  "msg_doc_undecodable = [0x6587, 0x6863, 0x5185, 0x5BB9, 0x89E3, 0x7801, 0x5931, 0x8D25]"

definition msg_doc_no_table :: "pystr" where
  \<comment> \<open>the label document lacks the standard table\<close>
  "msg_doc_no_table = [0x6807, 0x7B7E, 0x6587, 0x6863, 0x7F3A, 0x5C11, 0x6807, 0x51C6, 0x8868, 0x683C, 0x683C, 0x5F0F]"

definition msg_too_few_labels :: "pystr \<Rightarrow> pystr \<Rightarrow> pystr" where
  \<comment> \<open>too few labels: at least ... needed, ... found\<close>
  "msg_too_few_labels needed actual = [0x6807, 0x7B7E, 0x6570, 0x91CF, 0x4E0D, 0x8DB3] @ ascii '': '' @ [0x9700, 0x8981, 0x81F3, 0x5C11] @ ascii '' '' @ needed @ ascii '' '' @ [0x4E2A] @ ascii '', '' @ [0x5B9E, 0x9645] @ ascii '' '' @ actual @ ascii '' '' @ [0x4E2A]"

definition msg_doc_complete :: "pystr \<Rightarrow> pystr" where
  \<comment> \<open>label document complete, ... labels\<close>
  "msg_doc_complete actual = [0x6807, 0x7B7E, 0x6587, 0x6863, 0x5B8C, 0x6574] @ ascii '', '' @ [0x5305, 0x542B] @ ascii '' '' @ actual @ ascii '' '' @ [0x4E2A, 0x6807, 0x7B7E]"

definition task_issue :: "pystr" where
  \<comment> \<open>issue check\<close>
  "task_issue = ascii ''Issue'' @ [0x9A8C, 0x8BC1]"

definition msg_no_issue_list :: "pystr" where
  \<comment> \<open>cannot fetch the issue list\<close>
  "msg_no_issue_list = [0x65E0, 0x6CD5, 0x83B7, 0x53D6] @ ascii ''Issue'' @ [0x5217, 0x8868]"

definition msg_issue_not_found :: "pystr" where
  \<comment> \<open>no standardization issue found\<close>
  "msg_issue_not_found = [0x672A, 0x627E, 0x5230, 0x6807, 0x51C6, 0x5316, 0x9700, 0x6C42] @ ascii ''Issue''"

definition msg_issue_done_titled :: "pystr \<Rightarrow> pystr \<Rightarrow> pystr" where
  \<comment> \<open>standardization issue #... checked: title\<close>
  "msg_issue_done_titled num issue_title = [0x6807, 0x51C6, 0x5316] @ ascii ''Issue #'' @ num @ ascii '' '' @ [0x9A8C, 0x8BC1, 0x5B8C, 0x6210] @ ascii '': '' @ issue_title"

definition msg_issue_done :: "pystr \<Rightarrow> pystr" where
  \<comment> \<open>standardization issue #... checked\<close>
  "msg_issue_done num = [0x6807, 0x51C6, 0x5316] @ ascii ''Issue #'' @ num @ ascii '' '' @ [0x9A8C, 0x8BC1, 0x5B8C, 0x6210]"

definition msg_issue_missing_keywords :: "pystr \<Rightarrow> pystr" where
  \<comment> \<open>issue lacks keywords\<close>
  "msg_issue_missing_keywords items = ascii ''Issue'' @ [0x7F3A, 0x5C11, 0x5173, 0x952E, 0x8BCD] @ ascii '': '' @ items"

definition msg_issue_missing_sections :: "pystr \<Rightarrow> pystr" where
  \<comment> \<open>issue lacks sections\<close>
  "msg_issue_missing_sections items = ascii ''Issue'' @ [0x7F3A, 0x5C11, 0x7AE0, 0x8282] @ ascii '': '' @ items"

definition msg_issue_missing_labels :: "pystr \<Rightarrow> pystr" where
  \<comment> \<open>issue lacks labels\<close>
  "msg_issue_missing_labels items = ascii ''Issue'' @ [0x7F3A, 0x5C11, 0x6807, 0x7B7E] @ ascii '': '' @ items"

definition task_pr :: "pystr" where
  \<comment> \<open>pull request check\<close>
  "task_pr = ascii ''PR'' @ [0x9A8C, 0x8BC1]"

definition msg_no_pr_list :: "pystr" where
  \<comment> \<open>cannot fetch the pull request list\<close>
  "msg_no_pr_list = [0x65E0, 0x6CD5, 0x83B7, 0x53D6] @ ascii ''PR'' @ [0x5217, 0x8868]"

definition msg_pr_not_found :: "pystr" where
  \<comment> \<open>no standardization pull request found\<close>
  "msg_pr_not_found = [0x672A, 0x627E, 0x5230, 0x6807, 0x51C6, 0x5316, 0x5B9E, 0x65BD] @ ascii ''PR''"

definition msg_pr_not_linked :: "pystr" where
  \<comment> \<open>pull request does not reference the issue\<close>
  "msg_pr_not_linked = ascii ''PR'' @ [0x672A, 0x5173, 0x8054, 0x6807, 0x51C6, 0x5316] @ ascii ''Issue''"

definition msg_pr_missing_sections :: "pystr \<Rightarrow> pystr" where
  \<comment> \<open>pull request lacks sections\<close>
  "msg_pr_missing_sections items = ascii ''PR'' @ [0x7F3A, 0x5C11, 0x7AE0, 0x8282] @ ascii '': '' @ items"

definition msg_pr_too_few_labels :: "pystr \<Rightarrow> pystr" where
  \<comment> \<open>pull request has too few labels\<close>
  "msg_pr_too_few_labels needed = ascii ''PR'' @ [0x6807, 0x7B7E, 0x6570, 0x91CF, 0x4E0D, 0x8DB3] @ ascii '': '' @ [0x9700, 0x8981, 0x81F3, 0x5C11] @ ascii '' '' @ needed @ ascii '' '' @ [0x4E2A]"

definition msg_pr_done :: "pystr \<Rightarrow> pystr" where
  \<comment> \<open>standardization pull request #... checked\<close>
  "msg_pr_done num = [0x6807, 0x51C6, 0x5316] @ ascii ''PR #'' @ num @ ascii '' '' @ [0x9A8C, 0x8BC1, 0x5B8C, 0x6210]"

definition task_completeness :: "pystr" where
  \<comment> \<open>label completeness\<close>
  "task_completeness = [0x6807, 0x7B7E, 0x5B8C, 0x6574, 0x6027]"

definition msg_issue_lacks_expected :: "pystr \<Rightarrow> pystr" where
  \<comment> \<open>issue lacks ... expected labels\<close>
  "msg_issue_lacks_expected count = ascii ''Issue'' @ [0x7F3A, 0x5C11] @ ascii '' '' @ count @ ascii '' '' @ [0x4E2A, 0x9884, 0x671F, 0x6807, 0x7B7E]"

definition msg_issue_has_expected :: "pystr" where
  \<comment> \<open>issue has every expected label\<close>
  "msg_issue_has_expected = ascii ''Issue'' @ [0x5305, 0x542B, 0x6240, 0x6709, 0x9884, 0x671F, 0x6807, 0x7B7E]"

definition task_comments :: "pystr" where
  \<comment> \<open>comment check\<close>
  "task_comments = [0x8BC4, 0x8BBA, 0x9A8C, 0x8BC1]"

definition msg_no_comments :: "pystr" where
  \<comment> \<open>cannot fetch the issue comments\<close>
  "msg_no_comments = [0x65E0, 0x6CD5, 0x83B7, 0x53D6] @ ascii ''Issue'' @ [0x8BC4, 0x8BBA]"

definition msg_no_pr_reference :: "pystr" where
  \<comment> \<open>no comment references the pull request\<close>
  "msg_no_pr_reference = ascii ''Issue'' @ [0x8BC4, 0x8BBA, 0x4E2D, 0x672A, 0x627E, 0x5230] @ ascii ''PR'' @ [0x5F15, 0x7528]"

definition msg_no_completion_keyword :: "pystr" where
  \<comment> \<open>no comment has a completion keyword\<close>
  "msg_no_completion_keyword = ascii ''Issue'' @ [0x8BC4, 0x8BBA, 0x4E2D, 0x672A, 0x627E, 0x5230, 0x5B8C, 0x6210, 0x9A8C, 0x8BC1, 0x5173, 0x952E, 0x8BCD]"

definition msg_comments_ok :: "pystr" where
  \<comment> \<open>comment traceability passed\<close>
  "msg_comments_ok = ascii ''Issue'' @ [0x8BC4, 0x8BBA, 0x8FFD, 0x6EAF, 0x9A8C, 0x8BC1, 0x901A, 0x8FC7]"

definition task_consistency :: "pystr" where
  \<comment> \<open>consistency check\<close>
  "task_consistency = [0x4E00, 0x81F4, 0x6027, 0x9A8C, 0x8BC1]"

definition msg_no_doc :: "pystr" where
  \<comment> \<open>cannot fetch the label document\<close>
  "msg_no_doc = [0x65E0, 0x6CD5, 0x83B7, 0x53D6, 0x6807, 0x7B7E, 0x6587, 0x6863]"

definition msg_no_repo_labels :: "pystr" where
  \<comment> \<open>cannot fetch the repository labels\<close>
  "msg_no_repo_labels = [0x65E0, 0x6CD5, 0x83B7, 0x53D6, 0x4ED3, 0x5E93, 0x6807, 0x7B7E]"

definition msg_doc_lacks :: "pystr \<Rightarrow> pystr" where
  \<comment> \<open>document lacks ... actual labels\<close>
  "msg_doc_lacks count = [0x6587, 0x6863, 0x7F3A, 0x5C11] @ ascii '' '' @ count @ ascii '' '' @ [0x4E2A, 0x5B9E, 0x9645, 0x6807, 0x7B7E]"

definition msg_doc_extra :: "pystr \<Rightarrow> pystr" where
  \<comment> \<open>document has ... extra labels\<close>
  "msg_doc_extra count = [0x6587, 0x6863, 0x5305, 0x542B] @ ascii '' '' @ count @ ascii '' '' @ [0x4E2A, 0x591A, 0x4F59, 0x6807, 0x7B7E]"

definition msg_consistent :: "pystr" where
  \<comment> \<open>document and labels agree\<close>
  "msg_consistent = [0x6587, 0x6863, 0x4E0E, 0x5B9E, 0x9645, 0x6807, 0x7B7E, 0x5B8C, 0x5168, 0x4E00, 0x81F4]"

definition task_core :: "pystr" where
  \<comment> \<open>core label check\<close>
  "task_core = [0x6838, 0x5FC3, 0x6807, 0x7B7E, 0x9A8C, 0x8BC1]"

definition msg_pr_lacks_core :: "pystr \<Rightarrow> pystr" where
  \<comment> \<open>pull request lacks ... core labels\<close>
  "msg_pr_lacks_core count = ascii ''PR'' @ [0x7F3A, 0x5C11] @ ascii '' '' @ count @ ascii '' '' @ [0x4E2A, 0x6838, 0x5FC3, 0x6807, 0x7B7E]"

definition msg_pr_has_core :: "pystr" where
  \<comment> \<open>pull request has every core label\<close>
  "msg_pr_has_core = ascii ''PR'' @ [0x5305, 0x542B, 0x6240, 0x6709, 0x6838, 0x5FC3, 0x6807, 0x7B7E]"

definition kw_label_cn :: "pystr" where
  \<comment> \<open>label\<close>
  "kw_label_cn = [0x6807, 0x7B7E]"

definition kw_standardization_cn :: "pystr" where
  \<comment> \<open>standardization\<close>
  "kw_standardization_cn = [0x6807, 0x51C6, 0x5316]"

definition kw_label_system :: "pystr" where
  \<comment> \<open>label system\<close>
  "kw_label_system = [0x6807, 0x7B7E, 0x4F53, 0x7CFB]"

definition kw_color_convention :: "pystr" where
  \<comment> \<open>colour convention\<close>
  "kw_color_convention = [0x989C, 0x8272, 0x89C4, 0x8303]"

definition kw_requirement :: "pystr" where
  \<comment> \<open>standardization requirement\<close>
  "kw_requirement = [0x6807, 0x51C6, 0x5316, 0x9700, 0x6C42]"

definition kw_label_standardization_cn :: "pystr" where
  \<comment> \<open>label standardization\<close>
  "kw_label_standardization_cn = [0x6807, 0x7B7E, 0x6807, 0x51C6, 0x5316]"

definition kw_implement_cn :: "pystr" where
  \<comment> \<open>implement label standardization\<close>
  "kw_implement_cn = [0x5B9E, 0x65BD, 0x6807, 0x7B7E, 0x6807, 0x51C6, 0x5316]"

definition kw_linked_issue :: "pystr" where
  \<comment> \<open>linked issue\<close>
  "kw_linked_issue = [0x5173, 0x8054] @ ascii ''Issue''"

definition kw_label_changes :: "pystr" where
  \<comment> \<open>label changes\<close>
  "kw_label_changes = [0x6807, 0x7B7E, 0x53D8, 0x66F4]"

definition kw_test_results :: "pystr" where
  \<comment> \<open>test results\<close>
  "kw_test_results = [0x6D4B, 0x8BD5, 0x7ED3, 0x679C]"

definition kw_done :: "pystr" where
  \<comment> \<open>done\<close>
  "kw_done = [0x5B8C, 0x6210]"

definition kw_done_verified :: "pystr" where
  \<comment> \<open>verification done\<close>
  "kw_done_verified = [0x5B8C, 0x6210, 0x9A8C, 0x8BC1]"

definition kw_verified :: "pystr" where
  \<comment> \<open>verified\<close>
  "kw_verified = [0x5DF2, 0x9A8C, 0x8BC1]"

definition kw_standardization_done :: "pystr" where
  \<comment> \<open>standardization done\<close>
  "kw_standardization_done = [0x6807, 0x51C6, 0x5316, 0x5B8C, 0x6210]"

definition col_label_name :: "pystr" where
  \<comment> \<open>label name\<close>
  "col_label_name = [0x6807, 0x7B7E, 0x540D, 0x79F0]"

definition col_color_value :: "pystr" where
  \<comment> \<open>colour value\<close>
  "col_color_value = [0x989C, 0x8272, 0x503C]"

definition col_description :: "pystr" where
  \<comment> \<open>description\<close>
  "col_description = [0x63CF, 0x8FF0]"

definition cfg_table_header :: "pystr" where
  \<comment> \<open>table header: label name, colour value, description\<close>
  "cfg_table_header = ascii ''| '' @ [0x6807, 0x7B7E, 0x540D, 0x79F0] @ ascii '' | '' @ [0x989C, 0x8272, 0x503C] @ ascii '' | '' @ [0x63CF, 0x8FF0] @ ascii '' |''"

definition sec_problem :: "pystr" where
  \<comment> \<open>section: problem description\<close>
  "sec_problem = ascii ''## '' @ [0x95EE, 0x9898, 0x63CF, 0x8FF0]"

definition sec_expected :: "pystr" where
  \<comment> \<open>section: expected standard\<close>
  "sec_expected = ascii ''## '' @ [0x9884, 0x671F, 0x6807, 0x51C6]"

definition sec_label_list :: "pystr" where
  \<comment> \<open>section: label list\<close>
  "sec_label_list = ascii ''## '' @ [0x6807, 0x7B7E, 0x6E05, 0x5355]"

definition sec_summary :: "pystr" where
  \<comment> \<open>section: change summary\<close>
  "sec_summary = ascii ''## '' @ [0x4FEE, 0x6539, 0x6458, 0x8981]"

definition sec_label_changes :: "pystr" where
  \<comment> \<open>section: label changes\<close>
  "sec_label_changes = ascii ''## '' @ [0x6807, 0x7B7E, 0x53D8, 0x66F4]"

definition sec_test_results :: "pystr" where
  \<comment> \<open>section: test results\<close>
  "sec_test_results = ascii ''## '' @ [0x6D4B, 0x8BD5, 0x7ED3, 0x679C]"

definition title_label_requirement :: "pystr" where
  \<comment> \<open>example title: label standardization requirement\<close>
  "title_label_requirement = [0x6807, 0x7B7E, 0x6807, 0x51C6, 0x5316, 0x9700, 0x6C42]"

section \<open>The simplified script: table parser\<close>

record label_row =
  name :: pystr
  color :: pystr

text \<open>
  The body of the loop of \<open>parse_label_table\<close> (\<open>src/verify_label_standard.py\<close>) for
  one line: the row it appends, if any.  The two subscripts \<open>cells[0]\<close> and
  \<open>cells[1]\<close> are Python subscripts and may raise.
\<close>

definition parse_line :: "pystr \<Rightarrow> py_exc + label_row option" where
  "parse_line raw =
     (let line = strip raw in
      if startswith line [pipe] \<and> str_in [hash] line \<and> \<not> str_in separator_marker line then
        (let cells = map strip (split_on pipe (strip_chars (\<lambda>c. c = pipe) line)) in
         if length cells \<ge> 2 then
           (case py_index cells 0 of
              Inl e \<Rightarrow> Inl e
            | Inr c0 \<Rightarrow>
                if c0 \<noteq> [] then
                  (case py_index cells 1 of
                     Inl e \<Rightarrow> Inl e
                   | Inr c1 \<Rightarrow>
                       if startswith c1 [hash]
                       then Inr (Some \<lparr>name = c0, color = c1\<rparr>)
                       else Inr None)
                else Inr None)
         else Inr None)
      else Inr None)"

text \<open>The \<open>for line in lines\<close> loop, with the list \<open>labels\<close> built so far.\<close>

fun parse_lines :: "pystr list \<Rightarrow> label_row list \<Rightarrow> py_exc + label_row list" where
  "parse_lines [] labels = Inr labels"
| "parse_lines (raw # rest) labels =
     (case parse_line raw of
        Inl e \<Rightarrow> Inl e
      | Inr None \<Rightarrow> parse_lines rest labels
      | Inr (Some row) \<Rightarrow> parse_lines rest (labels @ [row]))"

definition parse_label_table :: "pystr \<Rightarrow> py_exc + label_row list" where
  "parse_label_table content = parse_lines (split_on newline content) []"

subsection \<open>The parsing rule in the words of the specification\<close>

definition row_cells :: "pystr \<Rightarrow> pystr list" where
  "row_cells line = map strip (split_on pipe (strip_chars (\<lambda>c. c = pipe) line))"

definition is_label_row :: "pystr \<Rightarrow> bool" where
  "is_label_row line \<longleftrightarrow>
     startswith line [pipe] \<and> str_in [hash] line \<and> \<not> str_in separator_marker line \<and>
     length (row_cells line) \<ge> 2 \<and> row_cells line ! 0 \<noteq> [] \<and>
     startswith (row_cells line ! 1) [hash]"

definition row_of_line :: "pystr \<Rightarrow> label_row" where
  "row_of_line line = \<lparr>name = row_cells line ! 0, color = row_cells line ! 1\<rparr>"

section \<open>Data model\<close>

text \<open>
  A verification result, as \<open>record_result\<close> builds it.  The status is a string, as in
  the source; the full script adds a timestamp.
\<close>

record result =
  task :: pystr
  message :: pystr
  status :: pystr

record result_full = result +
  timestamp :: pystr

text \<open>
  The fields of \<open>LabelStandardizationVerifier\<close>.  \<open>self.config\<close> is set once by
  \<open>load_configuration\<close> before any check runs and never changes; the checks take it as
  an argument.  \<open>requests_made\<close> is not a field of the source: it counts the HTTP GETs
  issued so far, so that the remote side may answer the same URL differently each time.
  Printing to the terminal is left out.
\<close>

record 'r verifier =
  headers :: "(pystr \<times> pystr) list option"
  org :: "pystr option"
  repo :: "pystr option"
  verification_results :: "'r list"
  has_critical_error :: bool
  requests_made :: nat

definition init :: "'r verifier" where
  "init = \<lparr>headers = None, org = None, repo = None, verification_results = [],
            has_critical_error = False, requests_made = 0\<rparr>"

text \<open>
  What \<open>requests.get\<close> does: a response with a status code and a body, or a
  \<open>RequestException\<close> (which includes the 30 second timeout).  The body is what
  \<open>response.json()\<close> makes of it: the parsed JSON, typed by what the endpoint serves, or
  \<open>NotJson\<close> when the body is not JSON and \<open>response.json()\<close> raises the library's
  \<open>JSONDecodeError\<close>.  That error is a \<open>RequestException\<close> (requests 2.27 and later),
  so the \<open>except\<close> clause of \<open>github_api_request\<close> catches it; the scripts call
  \<open>response.json()\<close> only when the status is 200.  With an older library the error is a
  plain \<open>ValueError\<close>, which the clause does not catch; that library is not modelled.
\<close>

datatype 'b json_body = Json 'b | NotJson

datatype 'b http_outcome = Response nat "'b json_body" | RequestException

text \<open>
  The outcome of \<open>base64.b64decode(response["content"]).decode("utf-8")\<close> on the body
  of a contents request: the text, or the exception raised (\<open>KeyError\<close> without a
  content field, \<open>ValueError\<close> for invalid base64 or UTF-8, \<open>TypeError\<close> for a body
  that is no file object).
\<close>

datatype decode_outcome = Decoded pystr | DecodeRaises py_exc

text \<open>
  An issue or pull request as the scripts read it: \<open>body\<close> is \<open>None\<close> for JSON null,
  \<open>labels\<close> holds the names of its labels, \<open>pull_request\<close> says whether the object
  has a \<open>"pull_request"\<close> key.  A missing title or body reads as the empty string.
\<close>

record issue =
  number :: nat
  title :: pystr
  body :: "pystr option"
  labels :: "pystr list"
  pull_request :: bool

type_synonym 'b http_get = "nat \<Rightarrow> pystr \<Rightarrow> (pystr \<times> pystr) list option \<Rightarrow> 'b http_outcome"

text \<open>
  Everything outside the script: the environment variables (after \<open>load_dotenv\<close>), the
  remote API by kind of body, \<open>str.lower\<close> of the Python runtime and the clock.
\<close>

record world =
  env_token :: "pystr option"
  env_org :: "pystr option"
  get_info :: "unit http_get"
  get_contents :: "decode_outcome http_get"
  get_issues :: "issue list http_get"
  get_labels :: "pystr list http_get"
  get_comments :: "pystr list http_get"
  str_lower :: "pystr \<Rightarrow> pystr"
  now_isoformat :: "nat \<Rightarrow> pystr"

text \<open>\<open>not s\<close> for an optional string, and \<open>f"{s}"\<close>.\<close>

definition falsy :: "pystr option \<Rightarrow> bool" where
  "falsy s \<longleftrightarrow> s = None \<or> s = Some []"

definition fmt :: "pystr option \<Rightarrow> pystr" where
  "fmt s = (case s of None \<Rightarrow> ascii ''None'' | Some t \<Rightarrow> t)"

definition success :: pystr where "success = ascii ''success''"
definition warning :: pystr where "warning = ascii ''warning''"
definition critical :: pystr where "critical = ascii ''critical''"

section \<open>The simplified script\<close>

record config =
  target_repo :: pystr
  feature_branch_name :: pystr
  feature_branch_doc_file :: pystr
  min_label_count :: nat
  expected_labels :: "pystr list"

definition load_configuration :: config where
  "load_configuration =
     \<lparr>target_repo = ascii ''GIT-HUB'',
      feature_branch_name = ascii ''main'',
      feature_branch_doc_file = ascii ''docs/label-color-standardization.md'',
      min_label_count = 12,
      expected_labels = map ascii
        [''bug'', ''enhancement'', ''documentation'', ''feature'', ''question'',
         ''priority-high'', ''priority-medium'', ''priority-low'',
         ''status-in-progress'', ''status-review'', ''status-done'', ''status-blocked'']\<rparr>"

text \<open>The URL that \<open>github_api_request\<close> builds, and the endpoint of the label document.\<close>

definition api_url :: "'r verifier \<Rightarrow> pystr \<Rightarrow> pystr" where
  "api_url self endpoint =
     (if endpoint = []
      then ascii ''https://api.github.com/repos/'' @ fmt (org self) @ ascii ''/'' @ fmt (repo self)
      else ascii ''https://api.github.com/repos/'' @ fmt (org self) @ ascii ''/'' @ fmt (repo self) @
           ascii ''/'' @ endpoint)"

definition contents_endpoint :: "'c config_scheme \<Rightarrow> pystr" where
  "contents_endpoint cfg =
     ascii ''contents/'' @ feature_branch_doc_file cfg @ ascii ''?ref='' @ feature_branch_name cfg"

definition github_api_request ::
  "'b http_get \<Rightarrow> 'r verifier \<Rightarrow> pystr \<Rightarrow> (bool \<times> 'b option) \<times> 'r verifier" where
  "github_api_request http_get self endpoint =
     (let url = api_url self endpoint;
          self' = self\<lparr>requests_made := requests_made self + 1\<rparr>
      in case http_get (requests_made self) url (headers self) of
           Response status_code body' \<Rightarrow>
             if status_code = 200
             then (case body' of
                     Json json \<Rightarrow> ((True, Some json), self')
                   | NotJson \<Rightarrow> ((False, None), self'))
             else ((False, None), self')
         | RequestException \<Rightarrow> ((False, None), self'))"

definition record_result :: "result verifier \<Rightarrow> pystr \<Rightarrow> pystr \<Rightarrow> pystr \<Rightarrow> result verifier" where
  "record_result self task' message' status' =
     (let result = \<lparr>task = task', message = message', status = status'\<rparr>;
          self' = self\<lparr>verification_results := verification_results self @ [result]\<rparr>
      in if status' = critical then self'\<lparr>has_critical_error := True\<rparr> else self')"

definition setup_environment :: "world \<Rightarrow> config \<Rightarrow> result verifier \<Rightarrow> bool \<times> result verifier" where
  "setup_environment w cfg self0 =
     (let github_token = env_token w;
          self1 = self0\<lparr>org := env_org w, repo := Some (target_repo cfg)\<rparr>
      in if falsy github_token \<or> falsy (org self1) then (False, self1)
         else
           (let self2 = self1\<lparr>headers := Some
                  [(ascii ''Authorization'', ascii ''token '' @ fmt github_token),
                   (ascii ''Accept'', ascii ''application/vnd.github.v3+json'')]\<rparr>
            in case github_api_request (get_info w) self2 [] of
                 ((test_success, _), self3) \<Rightarrow>
                   if \<not> test_success then (False, self3)
                   else (True, record_result self3 task_env msg_env_ok success)))"

definition verify_branch_existence ::
  "world \<Rightarrow> config \<Rightarrow> result verifier \<Rightarrow> bool \<times> result verifier" where
  "verify_branch_existence w cfg self =
     (let branch_name = feature_branch_name cfg
      in case github_api_request (get_info w) self (ascii ''branches/'' @ branch_name) of
           ((ok, _), self1) \<Rightarrow>
             if ok then (True, record_result self1 task_branch (msg_branch_exists branch_name) success)
             else (False, record_result self1 task_branch (msg_branch_missing branch_name) critical))"

text \<open>
  \<open>verify_label_document\<close>: the \<open>try\<close> catches \<open>KeyError\<close> and \<open>ValueError\<close> only; any
  other exception of the decoding leaves the function, as does one of the parser.
\<close>

definition verify_label_document ::
  "world \<Rightarrow> config \<Rightarrow> result verifier \<Rightarrow> (py_exc + bool) \<times> result verifier" where
  "verify_label_document w cfg self =
     (let doc_file = feature_branch_doc_file cfg
      in case github_api_request (get_contents w) self (contents_endpoint cfg) of
           ((ok, response), self1) \<Rightarrow>
             if \<not> ok then (Inr False, record_result self1 task_doc (msg_doc_missing doc_file) critical)
             else
               (case response of
                  None \<Rightarrow> (Inl TypeError, self1)
                | Some (DecodeRaises e) \<Rightarrow>
                    if e = KeyError \<or> e = ValueError
                    then (Inr False, record_result self1 task_doc msg_doc_undecodable critical)
                    else (Inl e, self1)
                | Some (Decoded content) \<Rightarrow>
                    (case parse_label_table content of
                       Inl e \<Rightarrow> (Inl e, self1)
                     | Inr labels' \<Rightarrow>
                         if length labels' < min_label_count cfg
                         then (Inr True, record_result self1 task_doc
                                 (msg_too_few_labels (str_of_nat (min_label_count cfg))
                                    (str_of_nat (length labels'))) warning)
                         else (Inr True, record_result self1 task_doc
                                 (msg_doc_complete (str_of_nat (length labels'))) success))))"

text \<open>
  The \<open>for issue in issues\<close> loop of \<open>verify_standardization_issue\<close>: the value of
  \<open>target_issue\<close> when the loop ends.
\<close>

fun find_target_issue :: "(pystr \<Rightarrow> pystr) \<Rightarrow> issue list \<Rightarrow> issue option" where
  "find_target_issue lower [] = None"
| "find_target_issue lower (i # issues) =
     (if pull_request i then find_target_issue lower issues
      else
        (let title' = lower (title i);
             body' = (case body i of
                        None \<Rightarrow> []
                      | Some b \<Rightarrow> if b \<noteq> [] then lower b else [])
         in if any_in [kw_label_cn, ascii ''label'', kw_standardization_cn] title' \<or>
               any_in [kw_label_system, kw_color_convention] body'
            then Some i
            else find_target_issue lower issues))"

definition verify_standardization_issue ::
  "world \<Rightarrow> result verifier \<Rightarrow> (py_exc + issue option) \<times> result verifier" where
  "verify_standardization_issue w self =
     (case github_api_request (get_issues w) self (ascii ''issues?state=all&per_page=100'') of
        ((ok, issues), self1) \<Rightarrow>
          if \<not> ok then (Inr None, record_result self1 task_issue msg_no_issue_list critical)
          else
            (case issues of
               None \<Rightarrow> (Inl TypeError, self1)
             | Some issues' \<Rightarrow>
                 (case find_target_issue (str_lower w) issues' of
                    None \<Rightarrow> (Inr None, record_result self1 task_issue msg_issue_not_found warning)
                  | Some target_issue \<Rightarrow>
                      (Inr (Some target_issue),
                       record_result self1 task_issue
                         (msg_issue_done_titled (str_of_nat (number target_issue))
                            (title target_issue)) success))))"

text \<open>\<open>generate_report\<close> prints the summary and returns whether no critical error was seen.\<close>

definition generate_report :: "result verifier \<Rightarrow> bool" where
  "generate_report self = (if has_critical_error self then False else True)"

definition run_verification ::
  "world \<Rightarrow> config \<Rightarrow> result verifier \<Rightarrow> (py_exc + bool) \<times> result verifier" where
  "run_verification w cfg self =
     (case setup_environment w cfg self of
        (env_ok, self1) \<Rightarrow>
          if \<not> env_ok then (Inr False, self1)
          else
            (case verify_branch_existence w cfg self1 of
               (branch_ok, self2) \<Rightarrow>
                 if \<not> branch_ok then (Inr False, self2)
                 else
                   (case verify_label_document w cfg self2 of
                      (Inl e, self3) \<Rightarrow> (Inl e, self3)
                    | (Inr doc_ok, self3) \<Rightarrow>
                        if \<not> doc_ok then (Inr False, self3)
                        else
                          (case verify_standardization_issue w self3 of
                             (Inl e, self4) \<Rightarrow> (Inl e, self4)
                           | (Inr _, self4) \<Rightarrow> (Inr (generate_report self4), self4)))))"

text \<open>
  \<open>main\<close>: the exit code of the process and the verifier at exit.  An exception that
  nothing catches ends the interpreter with exit code 1.
\<close>

definition main :: "world \<Rightarrow> nat \<times> result verifier" where
  "main w =
     (case run_verification w load_configuration init of
        (Inr ok, self) \<Rightarrow> (if ok then 0 else 1, self)
      | (Inl e, self) \<Rightarrow> (1, self))"

section \<open>The full script\<close>

text \<open>
  \<open>src/label-verification-project/verify_label_standard.py\<close>.  Its functions carry the
  suffix \<open>_full\<close> where the simplified script has one of the same name.
\<close>

record config_full = config +
  table_header :: pystr
  required_columns :: "pystr list"
  issue_title_keywords :: "pystr list"
  issue_body_keywords :: "pystr list"
  issue_required_labels :: "pystr list"
  issue_required_sections :: "pystr list"
  pr_title_keywords :: "pystr list"
  pr_body_keywords :: "pystr list"
  pr_required_labels :: "pystr list"
  pr_required_sections :: "pystr list"
  pr_min_labels_count :: nat
  core_labels :: "pystr list"

definition load_configuration_full :: config_full where
  "load_configuration_full =
     \<lparr>target_repo = ascii ''GIT-HUB'',
      feature_branch_name = ascii ''feat/label-standardization'',
      feature_branch_doc_file = ascii ''docs/labels-standard.md'',
      min_label_count = 15,
      expected_labels = map ascii
        [''bug'', ''enhancement'', ''documentation'', ''feature'', ''question'',
         ''help-wanted'', ''good-first-issue'', ''priority-high'',
         ''priority-medium'', ''priority-low'', ''status-in-progress'',
         ''status-review'', ''status-done'', ''status-blocked'', ''wontfix''],
      table_header = cfg_table_header,
      required_columns = [col_label_name, col_color_value, col_description],
      issue_title_keywords = [kw_label_standardization_cn, ascii ''Label Standardization''],
      issue_body_keywords = [kw_label_system, kw_color_convention, kw_requirement],
      issue_required_labels = [ascii ''enhancement'', ascii ''documentation''],
      issue_required_sections = [sec_problem, sec_expected, sec_label_list],
      pr_title_keywords = [kw_implement_cn, ascii ''Label Standardization Implementation''],
      pr_body_keywords = [kw_linked_issue, kw_label_changes, kw_test_results],
      pr_required_labels = [ascii ''documentation'', ascii ''enhancement''],
      pr_required_sections = [sec_summary, sec_label_changes, sec_test_results],
      pr_min_labels_count = 3,
      core_labels = map ascii
        [''bug'', ''enhancement'', ''documentation'', ''priority-high'',
         ''priority-medium'', ''priority-low'']\<rparr>"

definition api_url_full :: "'r verifier \<Rightarrow> pystr \<Rightarrow> pystr" where
  "api_url_full self endpoint =
     ascii ''https://api.github.com/repos/'' @ fmt (org self) @ ascii ''/'' @ fmt (repo self) @
     ascii ''/'' @ endpoint"

definition github_api_request_full ::
  "'b http_get \<Rightarrow> 'r verifier \<Rightarrow> pystr \<Rightarrow> (bool \<times> 'b option) \<times> 'r verifier" where
  "github_api_request_full http_get self endpoint =
     (let url = api_url_full self endpoint;
          self' = self\<lparr>requests_made := requests_made self + 1\<rparr>
      in case http_get (requests_made self) url (headers self) of
           Response status_code body' \<Rightarrow>
             if status_code = 200
             then (case body' of
                     Json json \<Rightarrow> ((True, Some json), self')
                   | NotJson \<Rightarrow> ((False, None), self'))
             else ((False, None), self')
         | RequestException \<Rightarrow> ((False, None), self'))"

definition record_result_full ::
  "world \<Rightarrow> result_full verifier \<Rightarrow> pystr \<Rightarrow> pystr \<Rightarrow> pystr \<Rightarrow> result_full verifier" where
  "record_result_full w self task' message' status' =
     (let result = \<lparr>task = task', message = message', status = status',
                     timestamp = now_isoformat w (length (verification_results self))\<rparr>;
          self' = self\<lparr>verification_results := verification_results self @ [result]\<rparr>
      in if status' = critical then self'\<lparr>has_critical_error := True\<rparr> else self')"

definition setup_environment_full ::
  "world \<Rightarrow> config_full \<Rightarrow> result_full verifier \<Rightarrow> bool \<times> result_full verifier" where
  "setup_environment_full w cfg self0 =
     (let github_token = env_token w;
          self1 = self0\<lparr>org := env_org w, repo := Some (target_repo cfg)\<rparr>
      in if falsy github_token
         then (False, record_result_full w self1 task_env_error msg_no_token critical)
         else if falsy (org self1)
         then (False, record_result_full w self1 task_env_error msg_no_org critical)
         else
           (let self2 = self1\<lparr>headers := Some
                  [(ascii ''Authorization'', ascii ''token '' @ fmt github_token),
                   (ascii ''Accept'', ascii ''application/vnd.github.v3+json''),
                   (ascii ''X-GitHub-Api-Version'', ascii ''2022-11-28'')]\<rparr>
            in case github_api_request_full (get_info w) self2 [] of
                 ((test_success, _), self3) \<Rightarrow>
                   if \<not> test_success
                   then (False, record_result_full w self3 task_api_failed msg_api_unreachable critical)
                   else (True, record_result_full w self3 task_env msg_env_ok success)))"

definition verify_branch_existence_full ::
  "world \<Rightarrow> config_full \<Rightarrow> result_full verifier \<Rightarrow> bool \<times> result_full verifier" where
  "verify_branch_existence_full w cfg self =
     (let branch_name = feature_branch_name cfg
      in case github_api_request_full (get_info w) self (ascii ''branches/'' @ branch_name) of
           ((ok, _), self1) \<Rightarrow>
             if ok
             then (True, record_result_full w self1 task_branch (msg_branch_exists branch_name) success)
             else (False, record_result_full w self1 task_branch (msg_branch_missing branch_name)
                            critical))"

text \<open>
  A parsed table row is a Python dict from column header to cell: an association list
  in insertion order, a later value for a key replacing the earlier one.
\<close>

type_synonym row_dict = "(pystr \<times> pystr) list"

definition py_dict :: "(pystr \<times> pystr) list \<Rightarrow> row_dict" where
  "py_dict pairs = foldl (\<lambda>d (k, v). AList.update k v d) [] pairs"

text \<open>
  The loop of the full \<open>parse_label_table\<close>, with its three variables \<open>in_table\<close>,
  \<open>headers\<close> and \<open>labels\<close>.  A line with the header \<open>continue\<close>s; a blank line in the
  table \<open>break\<close>s.
\<close>

fun parse_table_lines ::
  "pystr \<Rightarrow> pystr list \<Rightarrow> bool \<Rightarrow> pystr list \<Rightarrow> row_dict list \<Rightarrow> row_dict list" where
  "parse_table_lines header [] in_table hdrs rows = rows"
| "parse_table_lines header (line # rest) in_table hdrs rows =
     (if str_in header line
      then parse_table_lines header rest True
             (map strip (split_on pipe (strip_chars (\<lambda>c. c = pipe) line))) rows
      else
        (let rows' =
               (if in_table \<and> startswith line [pipe] \<and> \<not> str_in separator_marker line
                then (let values = map strip (split_on pipe (strip_chars (\<lambda>c. c = pipe) line))
                      in if length values \<ge> 3 then rows @ [py_dict (zip hdrs values)] else rows)
                else rows)
         in if in_table \<and> strip line = [] then rows'
            else parse_table_lines header rest in_table hdrs rows'))"

definition parse_label_table_full :: "pystr \<Rightarrow> pystr \<Rightarrow> row_dict list" where
  "parse_label_table_full content header =
     parse_table_lines header (split_on newline content) False [] []"

text \<open>The full \<open>verify_label_document\<close> has no \<open>try\<close>: an exception of the decoding leaves it.\<close>

definition verify_label_document_full ::
  "world \<Rightarrow> config_full \<Rightarrow> result_full verifier \<Rightarrow> (py_exc + bool) \<times> result_full verifier" where
  "verify_label_document_full w cfg self =
     (let doc_file = feature_branch_doc_file cfg
      in case github_api_request_full (get_contents w) self (contents_endpoint cfg) of
           ((ok, response), self1) \<Rightarrow>
             if \<not> ok
             then (Inr False, record_result_full w self1 task_doc (msg_doc_missing doc_file) critical)
             else
               (case response of
                  None \<Rightarrow> (Inl TypeError, self1)
                | Some (DecodeRaises e) \<Rightarrow> (Inl e, self1)
                | Some (Decoded content) \<Rightarrow>
                    if \<not> str_in (table_header cfg) content
                    then (Inr False, record_result_full w self1 task_doc msg_doc_no_table critical)
                    else
                      (let labels' = parse_label_table_full content (table_header cfg)
                       in if length labels' < min_label_count cfg
                          then (Inr False, record_result_full w self1 task_doc
                                  (msg_too_few_labels (str_of_nat (min_label_count cfg))
                                     (str_of_nat (length labels'))) critical)
                          else (Inr True, record_result_full w self1 task_doc
                                  (msg_doc_complete (str_of_nat (length labels'))) success))))"

text \<open>The issue loop of the full script: title keywords from the configuration, no lowering.\<close>

fun find_target_issue_full :: "pystr list \<Rightarrow> issue list \<Rightarrow> issue option" where
  "find_target_issue_full title_keywords [] = None"
| "find_target_issue_full title_keywords (i # issues) =
     (if pull_request i then find_target_issue_full title_keywords issues
      else if any_in title_keywords (title i) then Some i
      else find_target_issue_full title_keywords issues)"

text \<open>
  \<open>[k for k in wanted if k not in text]\<close> where \<open>text\<close> may be \<open>None\<close>: the first test
  \<open>k not in None\<close> raises \<open>TypeError\<close>.
\<close>

fun missing_from :: "pystr list \<Rightarrow> pystr option \<Rightarrow> py_exc + pystr list" where
  "missing_from [] text = Inr []"
| "missing_from (k # ks) None = Inl TypeError"
| "missing_from (k # ks) (Some t) = Inr (filter (\<lambda>k'. \<not> str_in k' t) (k # ks))"

definition comma_space :: pystr where "comma_space = ascii '', ''"

definition verify_standardization_issue_full ::
  "world \<Rightarrow> config_full \<Rightarrow> result_full verifier \<Rightarrow>
   (py_exc + issue option) \<times> result_full verifier" where
  "verify_standardization_issue_full w cfg self =
     (case github_api_request_full (get_issues w) self (ascii ''issues?state=all&per_page=50'') of
        ((ok, issues), self1) \<Rightarrow>
          if \<not> ok
          then (Inr None, record_result_full w self1 task_issue msg_no_issue_list critical)
          else
            (case issues of
               None \<Rightarrow> (Inl TypeError, self1)
             | Some issues' \<Rightarrow>
                 (case find_target_issue_full (issue_title_keywords cfg) issues' of
                    None \<Rightarrow>
                      (Inr None, record_result_full w self1 task_issue msg_issue_not_found critical)
                  | Some target_issue \<Rightarrow>
                      (let issue_body = body target_issue;
                           issue_labels = labels target_issue
                       in case missing_from (issue_body_keywords cfg) issue_body of
                            Inl e \<Rightarrow> (Inl e, self1)
                          | Inr missing_keywords \<Rightarrow>
                              (let self2 =
                                     (if missing_keywords \<noteq> []
                                      then record_result_full w self1 task_issue
                                             (msg_issue_missing_keywords
                                                (join comma_space missing_keywords)) warning
                                      else self1)
                               in case missing_from (issue_required_sections cfg) issue_body of
                                    Inl e \<Rightarrow> (Inl e, self2)
                                  | Inr missing_sections \<Rightarrow>
                                      (let self3 =
                                             (if missing_sections \<noteq> []
                                              then record_result_full w self2 task_issue
                                                     (msg_issue_missing_sections
                                                        (join comma_space missing_sections)) warning
                                              else self2);
                                           missing_labels =
                                             filter (\<lambda>label. label \<notin> set issue_labels)
                                               (issue_required_labels cfg);
                                           self4 =
                                             (if missing_labels \<noteq> []
                                              then record_result_full w self3 task_issue
                                                     (msg_issue_missing_labels
                                                        (join comma_space missing_labels)) warning
                                              else self3)
                                       in (Inr (Some target_issue),
                                           record_result_full w self4 task_issue
                                             (msg_issue_done (str_of_nat (number target_issue)))
                                             success)))))))"

text \<open>The pull request loop: the first pull request whose title has a keyword.\<close>

fun find_target_pr :: "pystr list \<Rightarrow> issue list \<Rightarrow> issue option" where
  "find_target_pr title_keywords [] = None"
| "find_target_pr title_keywords (pr # prs) =
     (if any_in title_keywords (title pr) then Some pr
      else find_target_pr title_keywords prs)"

definition verify_standardization_pr ::
  "world \<Rightarrow> config_full \<Rightarrow> result_full verifier \<Rightarrow> issue \<Rightarrow>
   (py_exc + issue option) \<times> result_full verifier" where
  "verify_standardization_pr w cfg self issue' =
     (case github_api_request_full (get_issues w) self (ascii ''pulls?state=all&per_page=50'') of
        ((ok, prs), self1) \<Rightarrow>
          if \<not> ok then (Inr None, record_result_full w self1 task_pr msg_no_pr_list critical)
          else
            (case prs of
               None \<Rightarrow> (Inl TypeError, self1)
             | Some prs' \<Rightarrow>
                 (case find_target_pr (pr_title_keywords cfg) prs' of
                    None \<Rightarrow> (Inr None, record_result_full w self1 task_pr msg_pr_not_found critical)
                  | Some target_pr \<Rightarrow>
                      (let pr_body = body target_pr;
                           pr_labels = labels target_pr
                       in case pr_body of
                            None \<Rightarrow> (Inl TypeError, self1)
                          | Some pr_text \<Rightarrow>
                              (let self2 =
                                     (if \<not> str_in (ascii ''#'' @ str_of_nat (number issue')) pr_text
                                      then record_result_full w self1 task_pr msg_pr_not_linked warning
                                      else self1)
                               in case missing_from (pr_required_sections cfg) pr_body of
                                    Inl e \<Rightarrow> (Inl e, self2)
                                  | Inr missing_sections \<Rightarrow>
                                      (let self3 =
                                             (if missing_sections \<noteq> []
                                              then record_result_full w self2 task_pr
                                                     (msg_pr_missing_sections
                                                        (join comma_space missing_sections)) warning
                                              else self2);
                                           self4 =
                                             (if length pr_labels < pr_min_labels_count cfg
                                              then record_result_full w self3 task_pr
                                                     (msg_pr_too_few_labels
                                                        (str_of_nat (pr_min_labels_count cfg))) warning
                                              else self3)
                                       in (Inr (Some target_pr),
                                           record_result_full w self4 task_pr
                                             (msg_pr_done (str_of_nat (number target_pr)))
                                             success)))))))"

definition verify_issue_label_completeness ::
  "world \<Rightarrow> config_full \<Rightarrow> result_full verifier \<Rightarrow> issue \<Rightarrow> bool \<times> result_full verifier" where
  "verify_issue_label_completeness w cfg self issue' =
     (let issue_labels = labels issue';
          expected = set (expected_labels cfg);
          actual_labels = set issue_labels;
          missing_labels = expected - actual_labels
      in if missing_labels \<noteq> {}
         then (False, record_result_full w self task_completeness
                        (msg_issue_lacks_expected (str_of_nat (card missing_labels))) warning)
         else (True, record_result_full w self task_completeness msg_issue_has_expected success))"

text \<open>
  The comment loop of \<open>verify_issue_comments\<close>: the two flags after all comments.
\<close>

fun scan_comments :: "(pystr \<Rightarrow> pystr) \<Rightarrow> nat \<Rightarrow> pystr list \<Rightarrow> bool \<times> bool \<Rightarrow> bool \<times> bool" where
  "scan_comments lower pr_number [] flags = flags"
| "scan_comments lower pr_number (comment # comments) (pr_reference_found, completion_keyword_found) =
     scan_comments lower pr_number comments
       (if str_in (ascii ''#'' @ str_of_nat pr_number) comment \<or>
           str_in (ascii ''pull/'' @ str_of_nat pr_number) comment
        then True else pr_reference_found,
        if any_in [kw_done, kw_done_verified, kw_verified, kw_standardization_done] (lower comment)
        then True else completion_keyword_found)"

definition verify_issue_comments ::
  "world \<Rightarrow> result_full verifier \<Rightarrow> issue \<Rightarrow> issue \<Rightarrow> (py_exc + bool) \<times> result_full verifier" where
  "verify_issue_comments w self issue' pr =
     (let issue_number = number issue';
          pr_number = number pr
      in case github_api_request_full (get_comments w) self
                (ascii ''issues/'' @ str_of_nat issue_number @ ascii ''/comments'') of
           ((ok, comments), self1) \<Rightarrow>
             if \<not> ok then (Inr False, record_result_full w self1 task_comments msg_no_comments warning)
             else
               (case comments of
                  None \<Rightarrow> (Inl TypeError, self1)
                | Some comments' \<Rightarrow>
                    (case scan_comments (str_lower w) pr_number comments' (False, False) of
                       (pr_reference_found, completion_keyword_found) \<Rightarrow>
                         (let self2 =
                                (if \<not> pr_reference_found
                                 then record_result_full w self1 task_comments msg_no_pr_reference warning
                                 else self1);
                              self3 =
                                (if \<not> completion_keyword_found
                                 then record_result_full w self2 task_comments
                                        msg_no_completion_keyword warning
                                 else self2)
                          in if pr_reference_found \<and> completion_keyword_found
                             then (Inr True, record_result_full w self3 task_comments msg_comments_ok
                                               success)
                             else (Inr False, self3)))))"

text \<open>
  \<open>verify_document_label_consistency\<close>.  The set comprehension over the parsed rows
  keeps the cell under the label-name column of every row that has one.
\<close>

definition doc_label_names :: "row_dict list \<Rightarrow> pystr set" where
  "doc_label_names documented_labels =
     set (List.map_filter (\<lambda>label. map_of label col_label_name) documented_labels)"

definition verify_document_label_consistency ::
  "world \<Rightarrow> config_full \<Rightarrow> result_full verifier \<Rightarrow> (py_exc + bool) \<times> result_full verifier" where
  "verify_document_label_consistency w cfg self =
     (let doc_file = feature_branch_doc_file cfg
      in case github_api_request_full (get_contents w) self (contents_endpoint cfg) of
           ((ok, response), self1) \<Rightarrow>
             if \<not> ok then (Inr False, record_result_full w self1 task_consistency msg_no_doc critical)
             else
               (case response of
                  None \<Rightarrow> (Inl TypeError, self1)
                | Some (DecodeRaises e) \<Rightarrow> (Inl e, self1)
                | Some (Decoded content) \<Rightarrow>
                    (let documented_labels = parse_label_table_full content (table_header cfg);
                         doc_names = doc_label_names documented_labels
                     in case github_api_request_full (get_labels w) self1
                               (ascii ''labels?per_page=100'') of
                          ((ok2, repo_labels), self2) \<Rightarrow>
                            if \<not> ok2
                            then (Inr False, record_result_full w self2 task_consistency
                                               msg_no_repo_labels critical)
                            else
                              (case repo_labels of
                                 None \<Rightarrow> (Inl TypeError, self2)
                               | Some repo_labels' \<Rightarrow>
                                   (let repo_label_names = set repo_labels';
                                        missing_in_doc = repo_label_names - doc_names;
                                        extra_in_doc = doc_names - repo_label_names;
                                        self3 =
                                          (if missing_in_doc \<noteq> {}
                                           then record_result_full w self2 task_consistency
                                                  (msg_doc_lacks (str_of_nat (card missing_in_doc)))
                                                  warning
                                           else self2);
                                        self4 =
                                          (if extra_in_doc \<noteq> {}
                                           then record_result_full w self3 task_consistency
                                                  (msg_doc_extra (str_of_nat (card extra_in_doc)))
                                                  warning
                                           else self3)
                                    in if missing_in_doc = {} \<and> extra_in_doc = {}
                                       then (Inr True, record_result_full w self4 task_consistency
                                                         msg_consistent success)
                                       else (Inr (card missing_in_doc = 0), self4))))))"

definition verify_pr_core_labels ::
  "world \<Rightarrow> config_full \<Rightarrow> result_full verifier \<Rightarrow> issue \<Rightarrow> bool \<times> result_full verifier" where
  "verify_pr_core_labels w cfg self pr =
     (let pr_labels = labels pr;
          core = set (core_labels cfg);
          pr_label_set = set pr_labels;
          missing_core_labels = core - pr_label_set
      in if missing_core_labels \<noteq> {}
         then (False, record_result_full w self task_core
                        (msg_pr_lacks_core (str_of_nat (card missing_core_labels))) warning)
         else (True, record_result_full w self task_core msg_pr_has_core success))"

definition generate_report_full :: "result_full verifier \<Rightarrow> bool" where
  "generate_report_full self =
     (let error_count = length (filter (\<lambda>r. status r = critical) (verification_results self))
      in if has_critical_error self then False
         else if error_count > 0 then True
         else True)"

definition run_verification_full ::
  "world \<Rightarrow> config_full \<Rightarrow> result_full verifier \<Rightarrow> (py_exc + bool) \<times> result_full verifier" where
  "run_verification_full w cfg self =
     (case setup_environment_full w cfg self of
        (env_ok, self1) \<Rightarrow>
          if \<not> env_ok then (Inr False, self1)
          else
     (case verify_branch_existence_full w cfg self1 of
        (branch_ok, self2) \<Rightarrow>
          if \<not> branch_ok then (Inr False, self2)
          else
     (case verify_label_document_full w cfg self2 of
        (Inl e, self3) \<Rightarrow> (Inl e, self3)
      | (Inr doc_ok, self3) \<Rightarrow>
          if \<not> doc_ok then (Inr False, self3)
          else
     (case verify_standardization_issue_full w cfg self3 of
        (Inl e, self4) \<Rightarrow> (Inl e, self4)
      | (Inr None, self4) \<Rightarrow> (Inr False, self4)
      | (Inr (Some issue'), self4) \<Rightarrow>
     (case verify_standardization_pr w cfg self4 issue' of
        (Inl e, self5) \<Rightarrow> (Inl e, self5)
      | (Inr None, self5) \<Rightarrow> (Inr False, self5)
      | (Inr (Some pr), self5) \<Rightarrow>
     (case verify_issue_label_completeness w cfg self5 issue' of
        (_, self6) \<Rightarrow>
     (case verify_issue_comments w self6 issue' pr of
        (Inl e, self7) \<Rightarrow> (Inl e, self7)
      | (Inr _, self7) \<Rightarrow>
     (case verify_document_label_consistency w cfg self7 of
        (Inl e, self8) \<Rightarrow> (Inl e, self8)
      | (Inr _, self8) \<Rightarrow>
     (case verify_pr_core_labels w cfg self8 pr of
        (_, self9) \<Rightarrow> (Inr (generate_report_full self9), self9))))))))))"

definition main_full :: "world \<Rightarrow> nat \<times> result_full verifier" where
  "main_full w =
     (case run_verification_full w load_configuration_full init of
        (Inr ok, self) \<Rightarrow> (if ok then 0 else 1, self)
      | (Inl e, self) \<Rightarrow> (1, self))"

section \<open>Example inputs\<close>

text \<open>
  A small label document: a header row, a separator row, one label row, a row whose
  second cell is no colour, and a line that is no table row.
\<close>

definition example_table :: pystr where
  "example_table = ascii ''| name | color | description |'' @ [newline] @
     ascii ''|------|-------|-------------|'' @ [newline] @
     ascii ''| bug | #d73a4a | desc |'' @ [newline] @
     ascii ''| docs | blue | # no colour |'' @ [newline] @
     ascii ''not a row #''"

text \<open>
  Lower-casing of the ASCII letters; it agrees with \<open>str.lower\<close> on a text whose cased
  characters are ASCII (Chinese characters have no case).
\<close>

definition ascii_lower :: "pystr \<Rightarrow> pystr" where
  "ascii_lower s = map (\<lambda>c. if 65 \<le> c \<and> c \<le> 90 then c + 32 else c) s"

text \<open>
  The two issues of the specification's example, with issue numbers 1 and 2; the
  absent body reads as the empty string.
\<close>

definition fix_bug_issue :: issue where
  "fix_bug_issue = \<lparr>number = 1, title = ascii ''Fix bug'', body = Some [], labels = [],
                     pull_request = False\<rparr>"

definition label_issue :: issue where
  "label_issue = \<lparr>number = 2, title = title_label_requirement, body = Some [], labels = [],
                   pull_request = False\<rparr>"

text \<open>An issue whose title has the keyword \<open>label\<close> in capitals only.\<close>

definition shouting_issue :: issue where
  "shouting_issue = \<lparr>number = 3, title = ascii ''LABEL cleanup'', body = Some [], labels = [],
                      pull_request = False\<rparr>"

text \<open>A remote side that answers every request with 200.\<close>

definition example_world :: world where
  "example_world =
     \<lparr>env_token = Some (ascii ''token''),
      env_org = Some (ascii ''octo''),
      get_info = (\<lambda>n url hdrs. Response 200 (Json ())),
      get_contents = (\<lambda>n url hdrs. Response 200 (Json (Decoded example_table))),
      get_issues = (\<lambda>n url hdrs. Response 200 (Json [fix_bug_issue, label_issue])),
      get_labels = (\<lambda>n url hdrs. Response 200 (Json [ascii ''bug''])),
      get_comments = (\<lambda>n url hdrs. Response 200 (Json [])),
      str_lower = ascii_lower,
      now_isoformat = (\<lambda>n. ascii ''2024-01-01T00:00:00'')\<rparr>"

text \<open>Requests that are answered 404 and requests that raise.\<close>

definition not_found :: "'b \<Rightarrow> 'b http_get" where
  "not_found b = (\<lambda>n url hdrs. Response 404 (Json b))"

definition timed_out :: "'b http_get" where
  "timed_out = (\<lambda>n url hdrs. RequestException)"

text \<open>Requests that are answered 200 with a body that is not JSON.\<close>

definition not_json :: "'b http_get" where
  "not_json = (\<lambda>n url hdrs. Response 200 NotJson)"

text \<open>Label documents with twelve and with eleven label rows.\<close>

definition table_row :: "pystr \<Rightarrow> pystr" where
  "table_row label = ascii ''| '' @ label @ ascii '' | #ededed | label |''"

definition twelve_rows_doc :: pystr where
  "twelve_rows_doc = join [newline] (map table_row (expected_labels load_configuration))"


text \<open>
  Worlds that differ from the example in the answer to the contents request: the
  document is missing, its content does not decode, it has twelve rows, it has eleven.
\<close>

definition doc_missing_world :: world where
  "doc_missing_world = example_world\<lparr>get_contents := not_found (DecodeRaises KeyError)\<rparr>"


definition twelve_rows_world :: world where
  "twelve_rows_world = example_world\<lparr>get_contents := (\<lambda>n url hdrs. Response 200 (Json (Decoded twelve_rows_doc)))\<rparr>"


text \<open>
  A document for the full script: a heading, the configured table header, a separator
  row, a label row, a row of two cells, the header again, another label row, a blank
  line and a row after it.
\<close>

definition two_tables_doc :: pystr where
  "two_tables_doc = join [newline]
     [ascii ''# Labels'',
      cfg_table_header,
      ascii ''|---|---|---|'',
      ascii ''| bug | #d73a4a | broken |'',
      ascii ''| short | #000000 |'',
      cfg_table_header,
      ascii ''| feature | #a2eeef | new |'',
      [],
      ascii ''| late | #ffffff | after the blank line |'']"

text \<open>
  Worlds for the consistency check: the label list cannot be fetched; the repository
  has exactly the two labels of the document; the repository has only one of them.
\<close>

definition labels_unavailable_world :: world where
  "labels_unavailable_world = example_world\<lparr>get_labels := not_found []\<rparr>"

definition consistent_world :: world where
  "consistent_world = example_world
     \<lparr>get_contents := (\<lambda>n url hdrs. Response 200 (Json (Decoded two_tables_doc))),
      get_labels := (\<lambda>n url hdrs. Response 200 (Json [ascii ''feature'', ascii ''bug'']))\<rparr>"

definition extra_label_world :: world where
  "extra_label_world = example_world
     \<lparr>get_contents := (\<lambda>n url hdrs. Response 200 (Json (Decoded two_tables_doc))),
      get_labels := (\<lambda>n url hdrs. Response 200 (Json [ascii ''bug'']))\<rparr>"

text \<open>A world without a token in the environment.\<close>

definition silent_env_world :: world where
  "silent_env_world = example_world\<lparr>env_token := None\<rparr>"

text \<open>
  A world in which the full script finds everything it halts on: a document with the
  configured header and fifteen label rows, and one entry that serves as issue and as
  pull request.
\<close>

definition fifteen_rows_doc :: pystr where
  "fifteen_rows_doc = join [newline]
     (cfg_table_header # ascii ''|---|---|---|'' #
      map table_row (expected_labels load_configuration_full))"

definition standardization_item :: issue where
  "standardization_item = \<lparr>number = 7, title = kw_implement_cn, body = Some [], labels = [],
                            pull_request = False\<rparr>"

definition full_pass_world :: world where
  "full_pass_world = example_world
     \<lparr>get_contents := (\<lambda>n url hdrs. Response 200 (Json (Decoded fifteen_rows_doc))),
      get_issues := (\<lambda>n url hdrs. Response 200 (Json [standardization_item]))\<rparr>"

section \<open>The claims in the words of the specification\<close>

text \<open>
  The issue the matcher looks for.  The simplified script looks for its keywords in the
  lower-cased title and body, the full script for the configured keywords in the title.
\<close>

definition is_standardization_issue :: "(pystr \<Rightarrow> pystr) \<Rightarrow> issue \<Rightarrow> bool" where
  "is_standardization_issue lower i \<longleftrightarrow>
     \<not> pull_request i \<and>
     (any_in [kw_label_cn, ascii ''label'', kw_standardization_cn] (lower (title i)) \<or>
      any_in [kw_label_system, kw_color_convention]
        (case body i of None \<Rightarrow> [] | Some b \<Rightarrow> if b = [] then [] else lower b))"

definition is_standardization_issue_full :: "pystr list \<Rightarrow> issue \<Rightarrow> bool" where
  "is_standardization_issue_full title_keywords i \<longleftrightarrow>
     \<not> pull_request i \<and> any_in title_keywords (title i)"

text \<open>
  The match of the simplified script as claimed: the keywords are looked for in the
  title and the body as they stand.
\<close>

definition claimed_issue_match :: "issue \<Rightarrow> bool" where
  "claimed_issue_match i \<longleftrightarrow>
     \<not> pull_request i \<and>
     (any_in [kw_label_cn, ascii ''label'', kw_standardization_cn] (title i) \<or>
      any_in [kw_label_system, kw_color_convention]
        (case body i of None \<Rightarrow> [] | Some b \<Rightarrow> b))"

text \<open>
  The full parser in the words of the specification.  A table row starts with a pipe,
  does not contain the separator marker and has at least three cells.
  \<open>claimed_table_lines\<close> is the rule as claimed: every table row after the first
  header line, up to the first blank line.  \<open>table_rows\<close> is the rule the parser
  follows: a further line with the header is not a row, it gives the column names of
  the rows after it.
\<close>

definition is_table_row :: "pystr \<Rightarrow> bool" where
  "is_table_row line \<longleftrightarrow>
     startswith line [pipe] \<and> \<not> str_in separator_marker line \<and> length (row_cells line) \<ge> 3"

definition claimed_table_lines :: "pystr \<Rightarrow> pystr \<Rightarrow> pystr list" where
  "claimed_table_lines header content =
     filter is_table_row
       (takeWhile (\<lambda>line. strip line \<noteq> [])
          (drop 1 (dropWhile (\<lambda>line. \<not> str_in header line) (split_on newline content))))"

fun table_rows :: "pystr \<Rightarrow> pystr list \<Rightarrow> pystr list \<Rightarrow> row_dict list" where
  "table_rows header hdrs [] = []"
| "table_rows header hdrs (line # rest) =
     (if str_in header line then table_rows header (row_cells line) rest
      else if is_table_row line then py_dict (zip hdrs (row_cells line)) # table_rows header hdrs rest
      else table_rows header hdrs rest)"

text \<open>The endpoint of the label list in \<open>verify_document_label_consistency\<close>.\<close>

definition labels_endpoint :: pystr where
  "labels_endpoint = ascii ''labels?per_page=100''"

text \<open>The flag agrees with the log: it is set exactly when some result is critical.\<close>

definition log_consistent :: "('a result_scheme) verifier \<Rightarrow> bool" where
  "log_consistent self \<longleftrightarrow>
     (has_critical_error self \<longleftrightarrow> critical \<in> set (map status (verification_results self)))"

section \<open>Properties of the simplified table parser\<close>

lemma parse_line_spec:
  "parse_line raw =
     Inr (if is_label_row (strip raw) then Some (row_of_line (strip raw)) else None)"
  by (simp add: parse_line_def is_label_row_def row_of_line_def row_cells_def py_index_def
      Let_def)

lemma parse_lines_spec:
  "parse_lines ls acc =
     Inr (acc @ map row_of_line (filter is_label_row (map strip ls)))"
  by (induction ls arbitrary: acc) (simp_all add: parse_line_spec)

text \<open>Unfolding these evaluates the string operations on a concrete text.\<close>

lemmas str_eval = ascii_def newline_def pipe_def hash_def separator_marker_def
  strip_def strip_chars_def is_space_def startswith_def str_in_def any_in_def py_index_def
  sublist_code Let_def

lemma parse_example_table:
  "parse_label_table example_table = Inr [\<lparr>name = ascii ''bug'', color = ascii ''#d73a4a''\<rparr>]"
  by (simp add: example_table_def parse_label_table_def parse_line_def str_eval)

text \<open>
  C4.  For every document the simplified parser returns, without raising, exactly the
  rows of the lines that qualify, in order: a line qualifies when, trimmed, it starts
  with a pipe, contains a hash sign, does not contain the separator marker, and its
  cells (the line without its leading and trailing pipes, split at pipes, each cell
  trimmed) are at least two, the first not empty and the second starting with a hash
  sign; the row of a qualifying line has the first cell as name and the second as
  colour.  The row
  \<open>| bug | #d73a4a | desc |\<close> gives name \<open>bug\<close> and colour \<open>#d73a4a\<close>, and in the example
  document the header row, the separator row, the row without a colour and the line
  that is no row are ignored.
\<close>

theorem parse_label_table_rule:
  "parse_label_table content =
     Inr (map row_of_line (filter is_label_row (map strip (split_on newline content)))) \<and>
   parse_label_table (ascii ''| bug | #d73a4a | desc |'') =
     Inr [\<lparr>name = ascii ''bug'', color = ascii ''#d73a4a''\<rparr>] \<and>
   parse_label_table example_table = Inr [\<lparr>name = ascii ''bug'', color = ascii ''#d73a4a''\<rparr>]"
proof (intro conjI)
  show "parse_label_table content =
     Inr (map row_of_line (filter is_label_row (map strip (split_on newline content))))"
    by (simp add: parse_label_table_def parse_lines_spec)
  show "parse_label_table (ascii ''| bug | #d73a4a | desc |'') =
     Inr [\<lparr>name = ascii ''bug'', color = ascii ''#d73a4a''\<rparr>]"
    by (simp add: parse_label_table_def parse_line_def str_eval)
  show "parse_label_table example_table = Inr [\<lparr>name = ascii ''bug'', color = ascii ''#d73a4a''\<rparr>]"
    by (simp add: example_table_def parse_label_table_def parse_line_def str_eval)
qed

text \<open>
  C10.  For every input string the simplified parser returns a list of rows (it raises
  nothing), and every row in it has a non-empty name and a colour that starts with a
  hash sign.
\<close>

theorem parse_label_table_rows_wellformed:
  "\<exists>rows. parse_label_table content = Inr rows \<and>
          (\<forall>row \<in> set rows. name row \<noteq> [] \<and> startswith (color row) [hash])"
  by (auto simp: parse_label_table_def parse_lines_spec is_label_row_def row_of_line_def)

theorem parse_label_table_rows_wellformed_witness:
  "parse_label_table example_table = Inr [\<lparr>name = ascii ''bug'', color = ascii ''#d73a4a''\<rparr>] \<and>
   name \<lparr>name = ascii ''bug'', color = ascii ''#d73a4a''\<rparr> \<noteq> [] \<and>
   startswith (color \<lparr>name = ascii ''bug'', color = ascii ''#d73a4a''\<rparr>) [hash]"
proof -
  have e: "parse_label_table example_table = Inr [\<lparr>name = ascii ''bug'', color = ascii ''#d73a4a''\<rparr>]"
    by (simp add: example_table_def parse_label_table_def parse_line_def str_eval)
  from parse_label_table_rows_wellformed [of example_table] obtain rows where
    r: "parse_label_table example_table = Inr rows"
    and a: "\<forall>row \<in> set rows. name row \<noteq> [] \<and> startswith (color row) [hash]" by blast
  from r e have "rows = [\<lparr>name = ascii ''bug'', color = ascii ''#d73a4a''\<rparr>]" by simp
  with a e show ?thesis by simp
qed

section \<open>The result log\<close>

lemma status_distinct:
  "critical \<noteq> warning" "critical \<noteq> success" "warning \<noteq> success"
  "warning \<noteq> critical" "success \<noteq> critical" "success \<noteq> warning"
  by (simp_all add: critical_def warning_def success_def ascii_def)

text \<open>
  C9.  In both scripts \<open>record_result\<close> appends one entry to the log and changes no
  earlier entry; it never resets the flag \<open>has_critical_error\<close>; and it keeps the
  invariant that the flag is set exactly when the log has an entry with status
  critical.  The invariant holds in the initial state, so it holds after every call.
\<close>

theorem record_result_invariant:
  "(let self' = record_result self t m s in
      verification_results self' =
        verification_results self @ [\<lparr>task = t, message = m, status = s\<rparr>] \<and>
      (has_critical_error self \<longrightarrow> has_critical_error self') \<and>
      ((has_critical_error self \<longleftrightarrow>
          (\<exists>r \<in> set (verification_results self). status r = critical)) \<longrightarrow>
       (has_critical_error self' \<longleftrightarrow>
          (\<exists>r \<in> set (verification_results self'). status r = critical)))) \<and>
   (let self' = record_result_full w selff t m s in
      (\<exists>ts. verification_results self' =
         verification_results selff @ [\<lparr>task = t, message = m, status = s, timestamp = ts\<rparr>]) \<and>
      (has_critical_error selff \<longrightarrow> has_critical_error self') \<and>
      ((has_critical_error selff \<longleftrightarrow>
          (\<exists>r \<in> set (verification_results selff). status r = critical)) \<longrightarrow>
       (has_critical_error self' \<longleftrightarrow>
          (\<exists>r \<in> set (verification_results self'). status r = critical)))) \<and>
   (has_critical_error (init :: result verifier) \<longleftrightarrow>
      (\<exists>r \<in> set (verification_results (init :: result verifier)). status r = critical)) \<and>
   (has_critical_error (init :: result_full verifier) \<longleftrightarrow>
      (\<exists>r \<in> set (verification_results (init :: result_full verifier)). status r = critical))"
  by (auto simp: record_result_def record_result_full_def init_def Let_def)

theorem record_result_invariant_witness:
  "(has_critical_error (init :: result verifier) \<longleftrightarrow>
      (\<exists>r \<in> set (verification_results (init :: result verifier)). status r = critical)) \<and>
   (has_critical_error (init :: result_full verifier) \<longleftrightarrow>
      (\<exists>r \<in> set (verification_results (init :: result_full verifier)). status r = critical)) \<and>
   has_critical_error (record_result init task_doc msg_doc_undecodable critical) \<and>
   has_critical_error (record_result_full example_world init task_doc msg_doc_undecodable critical) \<and>
   has_critical_error
     (record_result (record_result init task_doc msg_doc_undecodable critical)
        task_issue msg_issue_not_found warning) \<and>
   has_critical_error
     (record_result_full example_world
        (record_result_full example_world init task_doc msg_doc_undecodable critical)
        task_issue msg_issue_not_found warning)"
  using record_result_invariant
          [of init task_doc msg_doc_undecodable critical example_world init]
        record_result_invariant
          [of "record_result init task_doc msg_doc_undecodable critical"
              task_issue msg_issue_not_found warning example_world
              "record_result_full example_world init task_doc msg_doc_undecodable critical"]
  by (simp add: init_def Let_def record_result_def record_result_full_def)

section \<open>The API client\<close>

text \<open>
  C5, as claimed, fails: a response with status 200 whose body is not JSON makes
  \<open>response.json()\<close> raise inside the \<open>try\<close>, and both scripts return
  \<open>(False, None)\<close>, not \<open>(True, body)\<close>.
\<close>

theorem status_200_without_json_is_failure:
  "(not_json :: unit http_get) (requests_made (init :: result verifier))
       (api_url (init :: result verifier) []) (headers (init :: result verifier)) =
     Response 200 NotJson \<and>
   fst (github_api_request (not_json :: unit http_get) (init :: result verifier) []) =
     (False, None) \<and>
   fst (github_api_request_full (not_json :: unit http_get) (init :: result verifier) []) =
     (False, None)"
  by (simp add: github_api_request_def github_api_request_full_def not_json_def)

text \<open>
  C5, amended.  In both scripts \<open>github_api_request\<close> issues one GET (the request
  counter grows by one and nothing else of the verifier changes: no retry) and returns
  \<open>(True, body)\<close> when the response has status 200 and its body parses as JSON,
  \<open>(False, None)\<close> when the response has status 200 and its body is not JSON,
  \<open>(False, None)\<close> when it has any other status, and \<open>(False, None)\<close> when the request
  raises a \<open>RequestException\<close>.
\<close>

theorem github_api_request_contract:
  "(http_get (requests_made self) (api_url self endpoint) (headers self) =
        Response 200 (Json json) \<longrightarrow>
      fst (github_api_request http_get self endpoint) = (True, Some json)) \<and>
   (http_get (requests_made self) (api_url self endpoint) (headers self) =
        Response 200 NotJson \<longrightarrow>
      fst (github_api_request http_get self endpoint) = (False, None)) \<and>
   (http_get (requests_made self) (api_url self endpoint) (headers self) =
        Response status_code body' \<and> status_code \<noteq> 200 \<longrightarrow>
      fst (github_api_request http_get self endpoint) = (False, None)) \<and>
   (http_get (requests_made self) (api_url self endpoint) (headers self) = RequestException \<longrightarrow>
      fst (github_api_request http_get self endpoint) = (False, None)) \<and>
   snd (github_api_request http_get self endpoint) =
     self\<lparr>requests_made := requests_made self + 1\<rparr> \<and>
   (http_get (requests_made self) (api_url_full self endpoint) (headers self) =
        Response 200 (Json json) \<longrightarrow>
      fst (github_api_request_full http_get self endpoint) = (True, Some json)) \<and>
   (http_get (requests_made self) (api_url_full self endpoint) (headers self) =
        Response 200 NotJson \<longrightarrow>
      fst (github_api_request_full http_get self endpoint) = (False, None)) \<and>
   (http_get (requests_made self) (api_url_full self endpoint) (headers self) =
        Response status_code body' \<and> status_code \<noteq> 200 \<longrightarrow>
      fst (github_api_request_full http_get self endpoint) = (False, None)) \<and>
   (http_get (requests_made self) (api_url_full self endpoint) (headers self) = RequestException \<longrightarrow>
      fst (github_api_request_full http_get self endpoint) = (False, None)) \<and>
   snd (github_api_request_full http_get self endpoint) =
     self\<lparr>requests_made := requests_made self + 1\<rparr>"
  by (auto simp: github_api_request_def github_api_request_full_def Let_def
      split: http_outcome.splits json_body.splits)

theorem github_api_request_contract_witness:
  "fst (github_api_request (get_info example_world) (init :: result verifier) []) = (True, Some ()) \<and>
   fst (github_api_request (not_json :: unit http_get) (init :: result verifier) []) = (False, None) \<and>
   fst (github_api_request (not_found ()) (init :: result verifier) []) = (False, None) \<and>
   fst (github_api_request (timed_out :: unit http_get) (init :: result verifier) []) = (False, None) \<and>
   fst (github_api_request_full (get_info example_world) (init :: result verifier) []) = (True, Some ()) \<and>
   fst (github_api_request_full (not_json :: unit http_get) (init :: result verifier) []) = (False, None) \<and>
   fst (github_api_request_full (not_found ()) (init :: result verifier) []) = (False, None) \<and>
   fst (github_api_request_full (timed_out :: unit http_get) (init :: result verifier) []) = (False, None) \<and>
   requests_made (snd (github_api_request (get_info example_world) (init :: result verifier) [])) = 1 \<and>
   requests_made (snd (github_api_request_full (get_info example_world) (init :: result verifier) [])) = 1"
proof -
  have ok: "get_info example_world n url hdrs = Response 200 (Json ())" for n url hdrs
    by (simp add: example_world_def)
  have nj: "(not_json :: unit http_get) n url hdrs = Response 200 NotJson" for n url hdrs
    by (simp add: not_json_def)
  have nf: "not_found () n url hdrs = Response 404 (Json ()) \<and> (404::nat) \<noteq> 200" for n url hdrs
    by (simp add: not_found_def)
  have ex: "(timed_out :: unit http_get) n url hdrs = RequestException" for n url hdrs
    by (simp add: timed_out_def)
  note a = github_api_request_contract
             [of "get_info example_world" "init :: result verifier" "[]" "()" 404 "Json ()"]
  note b = github_api_request_contract
             [of "not_found ()" "init :: result verifier" "[]" "()" 404 "Json ()"]
  note c = github_api_request_contract
             [of "timed_out :: unit http_get" "init :: result verifier" "[]" "()" 404 "Json ()"]
  note d = github_api_request_contract
             [of "not_json :: unit http_get" "init :: result verifier" "[]" "()" 404 "Json ()"]
  from a ok have 1: "fst (github_api_request (get_info example_world) (init :: result verifier) []) = (True, Some ())"
    and 4: "fst (github_api_request_full (get_info example_world) (init :: result verifier) []) = (True, Some ())"
    by blast+
  from b nf have 2: "fst (github_api_request (not_found ()) (init :: result verifier) []) = (False, None)"
    and 5: "fst (github_api_request_full (not_found ()) (init :: result verifier) []) = (False, None)"
    by blast+
  from c ex have 3: "fst (github_api_request (timed_out :: unit http_get) (init :: result verifier) []) = (False, None)"
    and 6: "fst (github_api_request_full (timed_out :: unit http_get) (init :: result verifier) []) = (False, None)"
    by blast+
  from d nj have 9: "fst (github_api_request (not_json :: unit http_get) (init :: result verifier) []) = (False, None)"
    and 10: "fst (github_api_request_full (not_json :: unit http_get) (init :: result verifier) []) = (False, None)"
    by blast+
  from a have 7: "requests_made (snd (github_api_request (get_info example_world) (init :: result verifier) [])) = 1"
    and 8: "requests_made (snd (github_api_request_full (get_info example_world) (init :: result verifier) [])) = 1"
    by (simp_all add: init_def)
  from 1 2 3 4 5 6 7 8 9 10 show ?thesis by blast
qed

section \<open>The issue matcher\<close>

lemma find_target_issue_find:
  "find_target_issue lower issues = List.find (is_standardization_issue lower) issues"
  by (induction issues) (auto simp: is_standardization_issue_def Let_def split: option.splits)

lemma find_target_issue_full_find:
  "find_target_issue_full kws issues = List.find (is_standardization_issue_full kws) issues"
  by (induction issues) (auto simp: is_standardization_issue_full_def)

lemmas kw_eval = kw_label_cn_def kw_standardization_cn_def kw_label_system_def
  kw_color_convention_def kw_label_standardization_cn_def title_label_requirement_def

lemma find_target_issue_example:
  "find_target_issue ascii_lower [fix_bug_issue, label_issue] = Some label_issue"
  by (simp add: fix_bug_issue_def label_issue_def ascii_lower_def kw_eval str_eval)

lemma find_target_issue_full_example:
  "find_target_issue_full (issue_title_keywords load_configuration_full)
     [fix_bug_issue, label_issue] = Some label_issue"
  by (simp add: fix_bug_issue_def label_issue_def load_configuration_full_def kw_eval str_eval)

text \<open>
  C6, as claimed, fails in the simplified script: the title \<open>LABEL cleanup\<close> does not
  contain the keyword \<open>label\<close>, so the first listed issue whose title contains a
  keyword is the second one; the script lower-cases the title first and selects the
  first one.
\<close>

theorem upper_case_title_is_matched:
  "find_target_issue ascii_lower [shouting_issue, label_issue] = Some shouting_issue \<and>
   List.find claimed_issue_match [shouting_issue, label_issue] = Some label_issue"
  by (simp add: shouting_issue_def label_issue_def ascii_lower_def claimed_issue_match_def
      kw_eval str_eval)

text \<open>
  C6, amended.  In both scripts the loop over the issues ends with the first listed
  issue that has no \<open>pull_request\<close> field and has a keyword (\<open>List.find\<close> returns the
  first element with a property, or nothing): the simplified script looks in the
  lower-cased title for one of its three title keywords and in the lower-cased body for
  one of its two body keywords, the full script in the title as it stands for a
  configured title keyword.  For the list of an issue titled \<open>Fix bug\<close> and one titled
  with the Chinese for \<open>label standardization requirement\<close>, both loops and both
  checks select the second.
\<close>

theorem issue_matcher_first_match:
  "find_target_issue lower issues = List.find (is_standardization_issue lower) issues \<and>
   find_target_issue_full title_keywords issues =
     List.find (is_standardization_issue_full title_keywords) issues \<and>
   find_target_issue ascii_lower [fix_bug_issue, label_issue] = Some label_issue \<and>
   find_target_issue_full (issue_title_keywords load_configuration_full)
     [fix_bug_issue, label_issue] = Some label_issue \<and>
   fst (verify_standardization_issue example_world init) = Inr (Some label_issue) \<and>
   fst (verify_standardization_issue_full example_world load_configuration_full init) =
     Inr (Some label_issue)"
proof (intro conjI)
  show "fst (verify_standardization_issue example_world init) = Inr (Some label_issue)"
    by (simp add: verify_standardization_issue_def github_api_request_def example_world_def
        find_target_issue_example del: find_target_issue.simps)
  show "fst (verify_standardization_issue_full example_world load_configuration_full init) =
     Inr (Some label_issue)"
    by (simp add: verify_standardization_issue_full_def github_api_request_full_def
        example_world_def find_target_issue_full_example Let_def
        del: find_target_issue_full.simps)
      (simp add: label_issue_def load_configuration_full_def)
qed (rule find_target_issue_find find_target_issue_full_find
       find_target_issue_example find_target_issue_full_example)+

section \<open>The label-document check of the simplified script\<close>

lemma github_api_request_snd:
  "snd (github_api_request g self e) = self\<lparr>requests_made := requests_made self + 1\<rparr>"
  by (simp add: github_api_request_def Let_def split: http_outcome.splits json_body.splits)

lemma github_api_request_full_snd:
  "snd (github_api_request_full g self e) = self\<lparr>requests_made := requests_made self + 1\<rparr>"
  by (simp add: github_api_request_full_def Let_def split: http_outcome.splits json_body.splits)

lemmas run_eval = run_verification_def setup_environment_def verify_branch_existence_def
  verify_label_document_def verify_standardization_issue_def generate_report_def
  github_api_request_def record_result_def falsy_def fmt_def init_def
  not_found_def timed_out_def

lemma parse_twelve_rows:
  "parse_label_table twelve_rows_doc =
     Inr (map (\<lambda>label. \<lparr>name = label, color = ascii ''#ededed''\<rparr>) (expected_labels load_configuration))"
  by (simp add: twelve_rows_doc_def table_row_def load_configuration_def parse_label_table_def parse_line_def str_eval)




lemma example_env_ok:
  assumes "env_token w = Some (ascii ''token'')" "env_org w = Some (ascii ''octo'')"
      and "get_info w = (\<lambda>n url hdrs. Response 200 (Json ()))"
  shows "fst (setup_environment w cfg self) = True"
    and "fst (verify_branch_existence w cfg self') = True"
  using assms
  by (simp_all add: setup_environment_def verify_branch_existence_def github_api_request_def
      falsy_def ascii_def Let_def)

text \<open>
  C7.  In the simplified script, when the contents request succeeds, the content
  decodes and the number of parsed rows equals the configured minimum, the document
  check returns true and appends one result, of status success and not warning; the
  configured minimum is 12.
\<close>

theorem label_document_at_minimum_succeeds:
  assumes "fst (github_api_request (get_contents w) self (contents_endpoint cfg)) =
             (True, Some (Decoded content))"
      and "parse_label_table content = Inr rows"
      and "length rows = min_label_count cfg"
  shows "fst (verify_label_document w cfg self) = Inr True \<and>
         (\<exists>r. verification_results (snd (verify_label_document w cfg self)) =
                 verification_results self @ [r] \<and>
               status r = success \<and> status r \<noteq> warning) \<and>
         min_label_count load_configuration = 12"
proof -
  have "github_api_request (get_contents w) self (contents_endpoint cfg) =
          ((True, Some (Decoded content)), self\<lparr>requests_made := requests_made self + 1\<rparr>)"
    using assms(1) github_api_request_snd [of "get_contents w" self "contents_endpoint cfg"]
    by (metis prod.collapse)
  then show ?thesis
    using assms(2,3)
    by (simp add: verify_label_document_def record_result_def status_distinct Let_def
        load_configuration_def)
qed

theorem label_document_at_minimum_succeeds_witness:
  "fst (verify_label_document twelve_rows_world load_configuration init) = Inr True \<and>
   map status (verification_results (snd (verify_label_document twelve_rows_world load_configuration init))) = [success]"
proof -
  have 1: "fst (github_api_request (get_contents twelve_rows_world) init (contents_endpoint load_configuration)) =
             (True, Some (Decoded twelve_rows_doc))"
    by (simp add: github_api_request_def twelve_rows_world_def example_world_def)
  have 3: "length (map (\<lambda>label. \<lparr>name = label, color = ascii ''#ededed''\<rparr>) (expected_labels load_configuration)) =
             min_label_count load_configuration"
    by (simp add: load_configuration_def)
  from label_document_at_minimum_succeeds [OF 1 parse_twelve_rows 3] show ?thesis
    by (auto simp: init_def)
qed




section \<open>The table parser of the full script\<close>

lemma strip_chars_Nil: "strip_chars P s = [] \<longleftrightarrow> (\<forall>c \<in> set s. P c)"
proof -
  have a: "strip_chars P s = [] \<longleftrightarrow> dropWhile P (rev (dropWhile P s)) = []"
    by (simp add: strip_chars_def)
  have b: "dropWhile P (rev (dropWhile P s)) = [] \<longleftrightarrow> dropWhile P s = []"
  proof (cases "dropWhile P s")
    case Nil
    then show ?thesis by (simp del: dropWhile_eq_Nil_conv)
  next
    case (Cons x t)
    then have "\<not> P x"
      by (metis hd_dropWhile list.sel(1) list.distinct(1))
    with Cons show ?thesis
      by (auto simp: dropWhile_eq_Nil_conv)
  qed
  have c: "dropWhile P s = [] \<longleftrightarrow> (\<forall>c \<in> set s. P c)"
    by (simp add: dropWhile_eq_Nil_conv)
  from a b c show ?thesis by blast
qed

lemma blank_not_table_row: "strip line = [] \<Longrightarrow> \<not> startswith line [pipe]"
  by (cases line) (auto simp: strip_def strip_chars_Nil startswith_def is_space_def pipe_def)

lemma parse_table_lines_in_table:
  "parse_table_lines header ls True hdrs rows =
     rows @ table_rows header hdrs (takeWhile (\<lambda>l. str_in header l \<or> strip l \<noteq> []) ls)"
proof (induction ls arbitrary: hdrs rows)
  case Nil
  then show ?case by simp
next
  case (Cons l ls)
  show ?case
  proof (cases "str_in header l")
    case True
    then show ?thesis by (simp add: Cons.IH row_cells_def)
  next
    case False
    show ?thesis
    proof (cases "strip l = []")
      case True
      with False blank_not_table_row [OF True] show ?thesis by simp
    next
      case b: False
      with False show ?thesis
        by (simp add: Cons.IH is_table_row_def row_cells_def Let_def)
    qed
  qed
qed

lemma parse_table_lines_before_table:
  "parse_table_lines header ls False hdrs rows =
     (case dropWhile (\<lambda>l. \<not> str_in header l) ls of
        [] \<Rightarrow> rows
      | h # rest \<Rightarrow>
          rows @ table_rows header (row_cells h)
                   (takeWhile (\<lambda>l. str_in header l \<or> strip l \<noteq> []) rest))"
  by (induction ls arbitrary: hdrs rows)
     (simp_all add: parse_table_lines_in_table row_cells_def)

lemma length_table_rows:
  "length (table_rows header hdrs ls) =
     length (filter (\<lambda>l. \<not> str_in header l \<and> is_table_row l) ls)"
  by (induction ls arbitrary: hdrs) simp_all

lemmas cfg_eval = cfg_table_header_def col_label_name_def col_color_value_def col_description_def

lemma two_tables_parse:
  "parse_label_table_full two_tables_doc cfg_table_header =
     [[(col_label_name, ascii ''bug''), (col_color_value, ascii ''#d73a4a''), (col_description, ascii ''broken'')],
      [(col_label_name, ascii ''feature''), (col_color_value, ascii ''#a2eeef''), (col_description, ascii ''new'')]]"
  by (simp add: parse_label_table_full_def two_tables_doc_def cfg_eval py_dict_def str_eval)

lemma two_tables_claimed:
  "length (claimed_table_lines cfg_table_header two_tables_doc) = 3"
  by (simp add: claimed_table_lines_def is_table_row_def row_cells_def two_tables_doc_def cfg_eval str_eval)

lemma header_line_not_blank:
  assumes "strip header \<noteq> []" "str_in header line"
  shows "strip line \<noteq> []"
proof -
  from assms(1) obtain c where c: "c \<in> set header" "\<not> is_space c"
    by (auto simp: strip_def strip_chars_Nil)
  from assms(2) have "set header \<subseteq> set line"
    by (auto simp: str_in_def sublist_def)
  with c show ?thesis by (auto simp: strip_def strip_chars_Nil)
qed

lemma header_not_blank: "strip cfg_table_header \<noteq> []"
  by (simp add: cfg_eval str_eval)

lemma example_table_no_header:
  "\<forall>line \<in> set (split_on newline example_table). \<not> str_in cfg_table_header line"
  by (simp add: example_table_def cfg_eval str_eval)

text \<open>
  C8, as claimed, fails: in the example document the line that repeats the header
  starts with a pipe, has no separator marker and has three cells, so the claimed rule
  collects three lines; the parser returns two rows.
\<close>

theorem repeated_header_line_not_collected:
  "length (parse_label_table_full two_tables_doc cfg_table_header) = 2 \<and>
   length (claimed_table_lines cfg_table_header two_tables_doc) = 3"
  by (simp add: two_tables_parse two_tables_claimed)

text \<open>
  C8, amended.  For a table header that is not blank, the full parser returns no rows
  unless a line contains the header; after the first such line it reads up to the first
  blank line and collects, in order, each line that does not itself contain the header,
  starts with a pipe, does not contain the separator marker and splits into at least
  three cells.  A later line that contains the header is not collected.
\<close>

theorem parse_label_table_full_rule:
  assumes "strip header \<noteq> []"
  shows "parse_label_table_full content header =
           (case dropWhile (\<lambda>line. \<not> str_in header line) (split_on newline content) of
              [] \<Rightarrow> []
            | h # rest \<Rightarrow>
                table_rows header (row_cells h) (takeWhile (\<lambda>line. strip line \<noteq> []) rest)) \<and>
         length (table_rows header hdrs ls) =
           length (filter (\<lambda>line. \<not> str_in header line \<and> is_table_row line) ls) \<and>
         ((\<forall>line \<in> set (split_on newline content). \<not> str_in header line) \<longrightarrow>
            parse_label_table_full content header = [])"
proof -
  have eq: "(\<lambda>line. str_in header line \<or> strip line \<noteq> []) = (\<lambda>line. strip line \<noteq> [])"
    using header_line_not_blank [OF assms] by auto
  have 1: "parse_label_table_full content header =
           (case dropWhile (\<lambda>line. \<not> str_in header line) (split_on newline content) of
              [] \<Rightarrow> []
            | h # rest \<Rightarrow>
                table_rows header (row_cells h) (takeWhile (\<lambda>line. strip line \<noteq> []) rest))"
  proof (cases "dropWhile (\<lambda>line. \<not> str_in header line) (split_on newline content)")
    case Nil
    then show ?thesis
      by (simp add: parse_label_table_full_def parse_table_lines_before_table
          del: dropWhile_eq_Nil_conv)
  next
    case (Cons h rest)
    then show ?thesis
      by (simp add: parse_label_table_full_def parse_table_lines_before_table eq)
  qed
  have 3: "parse_label_table_full content header = []"
    if "\<forall>line \<in> set (split_on newline content). \<not> str_in header line"
  proof -
    from that have "dropWhile (\<lambda>line. \<not> str_in header line) (split_on newline content) = []"
      by simp
    then show ?thesis by (simp add: 1 del: dropWhile_eq_Nil_conv)
  qed
  from 1 3 length_table_rows show ?thesis by blast
qed

theorem parse_label_table_full_rule_witness:
  "strip cfg_table_header \<noteq> [] \<and>
   parse_label_table_full example_table cfg_table_header = [] \<and>
   length (table_rows cfg_table_header [] (split_on newline two_tables_doc)) =
     length (filter (\<lambda>line. \<not> str_in cfg_table_header line \<and> is_table_row line)
               (split_on newline two_tables_doc))"
  using parse_label_table_full_rule [OF header_not_blank, of example_table "[]" "split_on newline two_tables_doc"]
        header_not_blank example_table_no_header
  by blast

section \<open>The document and label consistency check\<close>

lemma record_result_full_simps:
  "verification_results (record_result_full w self t m s) =
     verification_results self @
       [\<lparr>task = t, message = m, status = s,
         timestamp = now_isoformat w (length (verification_results self))\<rparr>]"
  "has_critical_error (record_result_full w self t m s) = (s = critical \<or> has_critical_error self)"
  "requests_made (record_result_full w self t m s) = requests_made self"
  "headers (record_result_full w self t m s) = headers self"
  "org (record_result_full w self t m s) = org self"
  "repo (record_result_full w self t m s) = repo self"
  by (auto simp: record_result_full_def Let_def)

lemma github_api_request_full_frame:
  "github_api_request_full g self e = (r, self') \<Longrightarrow>
     verification_results self' = verification_results self \<and>
     has_critical_error self' = has_critical_error self"
  using github_api_request_full_snd [of g self e] by auto

lemma consistency_unfold:
  assumes "github_api_request_full (get_contents w) self (contents_endpoint cfg) = ((ok, response), self1)"
      and "github_api_request_full (get_labels w) self1 labels_endpoint = ((ok2, repo_labels), self2)"
  shows "verify_document_label_consistency w cfg self =
     (if \<not> ok then (Inr False, record_result_full w self1 task_consistency msg_no_doc critical)
      else
        (case response of
           None \<Rightarrow> (Inl TypeError, self1)
         | Some (DecodeRaises e) \<Rightarrow> (Inl e, self1)
         | Some (Decoded content) \<Rightarrow>
             if \<not> ok2
             then (Inr False, record_result_full w self2 task_consistency msg_no_repo_labels critical)
             else
               (case repo_labels of
                  None \<Rightarrow> (Inl TypeError, self2)
                | Some repo_labels' \<Rightarrow>
                    (let doc_names = doc_label_names (parse_label_table_full content (table_header cfg));
                         repo_label_names = set repo_labels';
                         missing_in_doc = repo_label_names - doc_names;
                         extra_in_doc = doc_names - repo_label_names;
                         self3 =
                           (if missing_in_doc \<noteq> {}
                            then record_result_full w self2 task_consistency
                                   (msg_doc_lacks (str_of_nat (card missing_in_doc))) warning
                            else self2);
                         self4 =
                           (if extra_in_doc \<noteq> {}
                            then record_result_full w self3 task_consistency
                                   (msg_doc_extra (str_of_nat (card extra_in_doc))) warning
                            else self3)
                     in if missing_in_doc = {} \<and> extra_in_doc = {}
                        then (Inr True, record_result_full w self4 task_consistency
                                          msg_consistent success)
                        else (Inr (card missing_in_doc = 0), self4)))))"
  using assms
  by (simp add: verify_document_label_consistency_def labels_endpoint_def Let_def
      split: option.splits decode_outcome.splits)

lemma consistency_statuses:
  assumes "github_api_request_full (get_contents w) self (contents_endpoint cfg) =
             ((True, Some (Decoded content)), self1)"
      and "github_api_request_full (get_labels w) self1 labels_endpoint =
             ((True, Some names), self2)"
  shows "fst (verify_document_label_consistency w cfg self) =
           Inr (set names \<subseteq> doc_label_names (parse_label_table_full content (table_header cfg)))"
    and "map status (verification_results (snd (verify_document_label_consistency w cfg self))) =
           map status (verification_results self) @
           (if set names \<subseteq> doc_label_names (parse_label_table_full content (table_header cfg))
            then [] else [warning]) @
           (if doc_label_names (parse_label_table_full content (table_header cfg)) \<subseteq> set names
            then [] else [warning]) @
           (if doc_label_names (parse_label_table_full content (table_header cfg)) = set names
            then [success] else [])"
proof -
  let ?D = "doc_label_names (parse_label_table_full content (table_header cfg))"
  have fr: "verification_results self2 = verification_results self"
    using github_api_request_full_frame [OF assms(1)] github_api_request_full_frame [OF assms(2)]
    by simp
  have fin: "finite (set names - ?D)" by simp
  note u = consistency_unfold [OF assms]
  show "fst (verify_document_label_consistency w cfg self) = Inr (set names \<subseteq> ?D)"
    by (auto simp: u Let_def)
  show "map status (verification_results (snd (verify_document_label_consistency w cfg self))) =
           map status (verification_results self) @
           (if set names \<subseteq> ?D then [] else [warning]) @
           (if ?D \<subseteq> set names then [] else [warning]) @
           (if ?D = set names then [success] else [])"
    by (auto simp: u Let_def record_result_full_simps fr)
qed

lemma two_tables_names:
  "doc_label_names (parse_label_table_full two_tables_doc (table_header load_configuration_full)) =
     {ascii ''bug'', ascii ''feature''}"
  by (simp add: load_configuration_full_def two_tables_parse doc_label_names_def
      List.map_filter_simps)

text \<open>
  C3, as claimed, fails: when the label list of the repository cannot be fetched the
  consistency check records a critical result, not a warning.
\<close>

theorem unavailable_labels_recorded_critical:
  "map status (verification_results
     (snd (verify_document_label_consistency labels_unavailable_world load_configuration_full init))) =
     [critical] \<and> critical \<noteq> warning"
  by (simp add: verify_document_label_consistency_def github_api_request_full_def
      labels_unavailable_world_def example_world_def not_found_def record_result_full_def
      init_def status_distinct Let_def)

text \<open>
  C3, amended.  In the full script, when the document or the label list cannot be
  fetched, the consistency check records one critical result and returns false.  When
  both are fetched and the document decodes, it records a success result exactly when
  the label names of the document equal the label names of the repository; every
  result it then records is a success or a warning, and when the sets differ it records
  warnings only; it returns whether every repository label is in the document.
\<close>

theorem document_label_consistency_results:
  assumes "github_api_request_full (get_contents w) self (contents_endpoint cfg) =
             ((ok, response), self1)"
      and "github_api_request_full (get_labels w) self1 labels_endpoint =
             ((ok2, repo_labels), self2)"
  shows "(\<not> ok \<longrightarrow>
            verify_document_label_consistency w cfg self =
              (Inr False, record_result_full w self1 task_consistency msg_no_doc critical)) \<and>
         (ok \<and> response = Some (Decoded content) \<and> \<not> ok2 \<longrightarrow>
            verify_document_label_consistency w cfg self =
              (Inr False, record_result_full w self2 task_consistency msg_no_repo_labels critical)) \<and>
         (ok \<and> response = Some (Decoded content) \<and> ok2 \<and> repo_labels = Some names \<longrightarrow>
            (\<exists>new. map status (verification_results
                        (snd (verify_document_label_consistency w cfg self))) =
                      map status (verification_results self) @ new \<and>
                   (success \<in> set new \<longleftrightarrow>
                      doc_label_names (parse_label_table_full content (table_header cfg)) = set names) \<and>
                   (\<forall>s \<in> set new. s = success \<or> s = warning) \<and>
                   (doc_label_names (parse_label_table_full content (table_header cfg)) \<noteq> set names
                      \<longrightarrow> new \<noteq> [] \<and> (\<forall>s \<in> set new. s = warning))) \<and>
            fst (verify_document_label_consistency w cfg self) =
              Inr (set names \<subseteq> doc_label_names (parse_label_table_full content (table_header cfg))))"
proof (intro conjI impI)
  assume "\<not> ok"
  then show "verify_document_label_consistency w cfg self =
              (Inr False, record_result_full w self1 task_consistency msg_no_doc critical)"
    by (simp add: consistency_unfold [OF assms])
next
  assume "ok \<and> response = Some (Decoded content) \<and> \<not> ok2"
  then show "verify_document_label_consistency w cfg self =
              (Inr False, record_result_full w self2 task_consistency msg_no_repo_labels critical)"
    by (simp add: consistency_unfold [OF assms])
next
  let ?D = "doc_label_names (parse_label_table_full content (table_header cfg))"
  assume h: "ok \<and> response = Some (Decoded content) \<and> ok2 \<and> repo_labels = Some names"
  with assms have
    a: "github_api_request_full (get_contents w) self (contents_endpoint cfg) =
          ((True, Some (Decoded content)), self1)" and
    b: "github_api_request_full (get_labels w) self1 labels_endpoint = ((True, Some names), self2)"
    by simp_all
  note st = consistency_statuses [OF a b]
  show "fst (verify_document_label_consistency w cfg self) = Inr (set names \<subseteq> ?D)"
    by (rule st(1))
  let ?new = "(if set names \<subseteq> ?D then [] else [warning]) @
              (if ?D \<subseteq> set names then [] else [warning]) @
              (if ?D = set names then [success] else [])"
  have 1: "map status (verification_results (snd (verify_document_label_consistency w cfg self))) =
             map status (verification_results self) @ ?new"
    by (rule st(2))
  have 2: "success \<in> set ?new \<longleftrightarrow> ?D = set names"
    by (auto simp: status_distinct)
  have 3: "\<forall>s \<in> set ?new. s = success \<or> s = warning"
    by auto
  have 4: "?D \<noteq> set names \<longrightarrow> ?new \<noteq> [] \<and> (\<forall>s \<in> set ?new. s = warning)"
    by auto
  from 1 2 3 4 show "\<exists>new. map status (verification_results
                        (snd (verify_document_label_consistency w cfg self))) =
                      map status (verification_results self) @ new \<and>
                   (success \<in> set new \<longleftrightarrow> ?D = set names) \<and>
                   (\<forall>s \<in> set new. s = success \<or> s = warning) \<and>
                   (?D \<noteq> set names \<longrightarrow> new \<noteq> [] \<and> (\<forall>s \<in> set new. s = warning))"
    by blast
qed

theorem document_label_consistency_results_witness:
  "map status (verification_results
     (snd (verify_document_label_consistency doc_missing_world load_configuration_full init))) =
     [critical] \<and>
   map status (verification_results
     (snd (verify_document_label_consistency labels_unavailable_world load_configuration_full init))) =
     [critical] \<and>
   fst (verify_document_label_consistency consistent_world load_configuration_full init) = Inr True \<and>
   success \<in> set (map status (verification_results
     (snd (verify_document_label_consistency consistent_world load_configuration_full init)))) \<and>
   fst (verify_document_label_consistency extra_label_world load_configuration_full init) = Inr True \<and>
   set (map status (verification_results
     (snd (verify_document_label_consistency extra_label_world load_configuration_full init)))) =
     {warning}"
proof -
  let ?cfg = load_configuration_full
  let ?i = "init :: result_full verifier"
  let ?s1 = "?i\<lparr>requests_made := requests_made ?i + 1\<rparr>"
  let ?s2 = "?s1\<lparr>requests_made := requests_made ?s1 + 1\<rparr>"
  have m1: "github_api_request_full (get_contents doc_missing_world) ?i (contents_endpoint ?cfg) =
              ((False, None), ?s1)"
    by (simp add: github_api_request_full_def doc_missing_world_def example_world_def not_found_def)
  have m2: "github_api_request_full (get_labels doc_missing_world) ?s1 labels_endpoint =
              ((True, Some [ascii ''bug'']), ?s2)"
    by (simp add: github_api_request_full_def doc_missing_world_def example_world_def)
  have u1: "github_api_request_full (get_contents labels_unavailable_world) ?i (contents_endpoint ?cfg) =
              ((True, Some (Decoded example_table)), ?s1)"
    by (simp add: github_api_request_full_def labels_unavailable_world_def example_world_def)
  have u2: "github_api_request_full (get_labels labels_unavailable_world) ?s1 labels_endpoint =
              ((False, None), ?s2)"
    by (simp add: github_api_request_full_def labels_unavailable_world_def example_world_def
        not_found_def)
  have c1: "github_api_request_full (get_contents consistent_world) ?i (contents_endpoint ?cfg) =
              ((True, Some (Decoded two_tables_doc)), ?s1)"
    by (simp add: github_api_request_full_def consistent_world_def example_world_def)
  have c2: "github_api_request_full (get_labels consistent_world) ?s1 labels_endpoint =
              ((True, Some [ascii ''feature'', ascii ''bug'']), ?s2)"
    by (simp add: github_api_request_full_def consistent_world_def example_world_def)
  have x1: "github_api_request_full (get_contents extra_label_world) ?i (contents_endpoint ?cfg) =
              ((True, Some (Decoded two_tables_doc)), ?s1)"
    by (simp add: github_api_request_full_def extra_label_world_def example_world_def)
  have x2: "github_api_request_full (get_labels extra_label_world) ?s1 labels_endpoint =
              ((True, Some [ascii ''bug'']), ?s2)"
    by (simp add: github_api_request_full_def extra_label_world_def example_world_def)
  have ne: "ascii ''bug'' \<noteq> ascii ''feature''" by (simp add: ascii_def)
  have a: "map status (verification_results
             (snd (verify_document_label_consistency doc_missing_world ?cfg init))) = [critical]"
    using document_label_consistency_results [OF m1 m2, of example_table "[]"]
    by (simp add: record_result_full_simps init_def)
  have b: "map status (verification_results
             (snd (verify_document_label_consistency labels_unavailable_world ?cfg init))) = [critical]"
    using document_label_consistency_results [OF u1 u2, of example_table "[]"]
    by (simp add: record_result_full_simps init_def)
  have c: "fst (verify_document_label_consistency consistent_world ?cfg init) = Inr True \<and>
           success \<in> set (map status (verification_results
             (snd (verify_document_label_consistency consistent_world ?cfg init))))"
    using document_label_consistency_results [OF c1 c2, of two_tables_doc "[ascii ''feature'', ascii ''bug'']"] ne
    by (auto simp: two_tables_names init_def)
  have d: "fst (verify_document_label_consistency extra_label_world ?cfg init) = Inr True \<and>
           set (map status (verification_results
             (snd (verify_document_label_consistency extra_label_world ?cfg init)))) = {warning}"
  proof -
    from document_label_consistency_results [OF x1 x2, of two_tables_doc "[ascii ''bug'']"] ne
    obtain new where
      n: "map status (verification_results
            (snd (verify_document_label_consistency extra_label_world ?cfg init))) =
          map status (verification_results ?i) @ new"
         "new \<noteq> []" "\<forall>s \<in> set new. s = warning"
      and f: "fst (verify_document_label_consistency extra_label_world ?cfg init) = Inr True"
      by (auto simp: two_tables_names)
    from n(2,3) have "set new = {warning}" by (cases new) auto
    with n(1) f show ?thesis by (simp add: init_def)
  qed
  from a b c d show ?thesis by simp
qed

section \<open>The exit code\<close>

lemma log_consistent_init: "log_consistent init"
  by (simp add: log_consistent_def init_def)

lemma log_consistent_frame [simp]:
  "log_consistent (self\<lparr>requests_made := n\<rparr>) = log_consistent self"
  "log_consistent (self\<lparr>headers := h\<rparr>) = log_consistent self"
  "log_consistent (self\<lparr>org := a\<rparr>) = log_consistent self"
  "log_consistent (self\<lparr>repo := b\<rparr>) = log_consistent self"
  by (simp_all add: log_consistent_def)

lemma log_consistent_record:
  "log_consistent self \<Longrightarrow> log_consistent (record_result self t m s)"
  by (auto simp: log_consistent_def record_result_def Let_def)

lemma has_critical_record:
  "has_critical_error (record_result self t m s) = (s = critical \<or> has_critical_error self)"
  by (auto simp: record_result_def Let_def)

lemma setup_environment_spec:
  assumes "log_consistent self"
  shows "log_consistent (snd (setup_environment w cfg self))"
  using assms
  by (auto simp: setup_environment_def github_api_request_def Let_def log_consistent_record
      split: http_outcome.splits json_body.splits)

lemma verify_branch_existence_spec:
  assumes "log_consistent self"
  shows "log_consistent (snd (verify_branch_existence w cfg self)) \<and>
         (\<not> fst (verify_branch_existence w cfg self) \<longrightarrow>
            has_critical_error (snd (verify_branch_existence w cfg self)))"
  using assms
  by (auto simp: verify_branch_existence_def github_api_request_def Let_def log_consistent_record
      has_critical_record split: http_outcome.splits json_body.splits)

lemma verify_label_document_spec:
  assumes "log_consistent self"
  shows "log_consistent (snd (verify_label_document w cfg self)) \<and>
         (fst (verify_label_document w cfg self) = Inr False \<longrightarrow>
            has_critical_error (snd (verify_label_document w cfg self)))"
  using assms
  by (auto simp: verify_label_document_def github_api_request_def Let_def log_consistent_record
      has_critical_record split: http_outcome.splits json_body.splits option.splits decode_outcome.splits sum.splits)

lemma verify_standardization_issue_spec:
  assumes "log_consistent self"
  shows "log_consistent (snd (verify_standardization_issue w self))"
  using assms
  by (auto simp: verify_standardization_issue_def github_api_request_def Let_def log_consistent_record
      split: http_outcome.splits json_body.splits option.splits)

lemma run_verification_spec:
  assumes "log_consistent self"
  shows "log_consistent (snd (run_verification w cfg self)) \<and>
         (\<forall>b. fst (run_verification w cfg self) = Inr b \<longrightarrow>
            (b \<longleftrightarrow> fst (setup_environment w cfg self) \<and>
                   \<not> has_critical_error (snd (run_verification w cfg self))))"
proof -
  obtain e1 s1 where 1: "setup_environment w cfg self = (e1, s1)" by (cases "setup_environment w cfg self")
  obtain e2 s2 where 2: "verify_branch_existence w cfg s1 = (e2, s2)" by (cases "verify_branch_existence w cfg s1")
  obtain e3 s3 where 3: "verify_label_document w cfg s2 = (e3, s3)" by (cases "verify_label_document w cfg s2")
  obtain e4 s4 where 4: "verify_standardization_issue w s3 = (e4, s4)" by (cases "verify_standardization_issue w s3")
  have c1: "log_consistent s1" using setup_environment_spec [OF assms, of w cfg] 1 by simp
  have c2: "log_consistent s2" "\<not> e2 \<longrightarrow> has_critical_error s2"
    using verify_branch_existence_spec [OF c1, of w cfg] 2 by simp_all
  have c3: "log_consistent s3" "e3 = Inr False \<longrightarrow> has_critical_error s3"
    using verify_label_document_spec [OF c2(1), of w cfg] 3 by simp_all
  have c4: "log_consistent s4"
    using verify_standardization_issue_spec [OF c3(1), of w] 4 by simp
  show ?thesis
    using c1 c2 c3 c4
    by (auto simp: run_verification_def 1 2 3 4 generate_report_def split: sum.splits)
qed

lemma log_consistent_record_full:
  "log_consistent self \<Longrightarrow> log_consistent (record_result_full w self t m s)"
  by (auto simp: log_consistent_def record_result_full_def Let_def)

lemma has_critical_record_full:
  "has_critical_error (record_result_full w self t m s) = (s = critical \<or> has_critical_error self)"
  by (auto simp: record_result_full_def Let_def)

lemma request_full_cases:
  obtains ok r where
    "github_api_request_full g self e = ((ok, r), self\<lparr>requests_made := Suc (requests_made self)\<rparr>)"
  by (cases "github_api_request_full g self e")
     (auto simp: github_api_request_full_def Let_def split: http_outcome.splits json_body.splits if_splits)

lemma setup_environment_full_spec:
  assumes "log_consistent self"
  shows "log_consistent (snd (setup_environment_full w cfg self)) \<and>
         (\<not> fst (setup_environment_full w cfg self) \<longrightarrow>
            has_critical_error (snd (setup_environment_full w cfg self)))"
proof -
  let ?s = "self\<lparr>org := env_org w, repo := Some (target_repo cfg),
              headers := Some
                  [(ascii ''Authorization'', ascii ''token '' @ fmt (env_token w)),
                   (ascii ''Accept'', ascii ''application/vnd.github.v3+json''),
                   (ascii ''X-GitHub-Api-Version'', ascii ''2022-11-28'')]\<rparr>"
  obtain ok r where q: "github_api_request_full (get_info w) ?s [] =
     ((ok, r), ?s\<lparr>requests_made := Suc (requests_made ?s)\<rparr>)"
    by (rule request_full_cases)
  show ?thesis
    using assms
    by (simp add: setup_environment_full_def Let_def q log_consistent_record_full
        has_critical_record_full)
qed

lemma verify_branch_existence_full_spec:
  assumes "log_consistent self"
  shows "log_consistent (snd (verify_branch_existence_full w cfg self)) \<and>
         (\<not> fst (verify_branch_existence_full w cfg self) \<longrightarrow>
            has_critical_error (snd (verify_branch_existence_full w cfg self)))"
proof -
  obtain ok r where q: "github_api_request_full (get_info w) self
       (ascii ''branches/'' @ feature_branch_name cfg) =
     ((ok, r), self\<lparr>requests_made := Suc (requests_made self)\<rparr>)"
    by (rule request_full_cases)
  show ?thesis
    using assms
    by (simp add: verify_branch_existence_full_def Let_def q log_consistent_record_full
        has_critical_record_full)
qed

lemma verify_label_document_full_spec:
  assumes "log_consistent self"
  shows "log_consistent (snd (verify_label_document_full w cfg self)) \<and>
         (fst (verify_label_document_full w cfg self) = Inr False \<longrightarrow>
            has_critical_error (snd (verify_label_document_full w cfg self)))"
proof -
  obtain ok r where q: "github_api_request_full (get_contents w) self (contents_endpoint cfg) =
     ((ok, r), self\<lparr>requests_made := Suc (requests_made self)\<rparr>)"
    by (rule request_full_cases)
  show ?thesis
    using assms
    by (simp add: verify_label_document_full_def Let_def q log_consistent_record_full
        has_critical_record_full split: option.splits decode_outcome.splits)
qed

lemma log_consistent_if_record_full:
  "log_consistent self \<Longrightarrow>
     log_consistent (if c then record_result_full w self t m s else self)"
  by (simp add: log_consistent_record_full)

lemma verify_standardization_issue_full_spec:
  assumes "log_consistent self"
  shows "log_consistent (snd (verify_standardization_issue_full w cfg self)) \<and>
         (fst (verify_standardization_issue_full w cfg self) = Inr None \<longrightarrow>
            has_critical_error (snd (verify_standardization_issue_full w cfg self)))"
proof -
  let ?s1 = "self\<lparr>requests_made := Suc (requests_made self)\<rparr>"
  obtain ok r where q: "github_api_request_full (get_issues w) self
       (ascii ''issues?state=all&per_page=50'') = ((ok, r), ?s1)"
    by (rule request_full_cases)
  have c1: "log_consistent ?s1" using assms by simp
  note defs = verify_standardization_issue_full_def q has_critical_record_full
  show ?thesis
  proof (cases "ok")
    case False
    then show ?thesis using c1 by (simp add: defs log_consistent_record_full)
  next
    case True
    show ?thesis
    proof (cases r)
      case None
      with True show ?thesis using c1 by (simp add: defs)
    next
      case (Some issues)
      show ?thesis
      proof (cases "find_target_issue_full (issue_title_keywords cfg) issues")
        case None
        with True Some show ?thesis using c1 by (simp add: defs log_consistent_record_full)
      next
        case found: (Some t)
        show ?thesis
        proof (cases "missing_from (issue_body_keywords cfg) (body t)")
          case (Inl e)
          with True Some found show ?thesis using c1 by (simp add: defs)
        next
          case mk: (Inr missing_keywords)
          let ?s2 = "if missing_keywords \<noteq> []
                     then record_result_full w ?s1 task_issue
                            (msg_issue_missing_keywords (join comma_space missing_keywords)) warning
                     else ?s1"
          have c2: "log_consistent ?s2" by (rule log_consistent_if_record_full [OF c1])
          show ?thesis
          proof (cases "missing_from (issue_required_sections cfg) (body t)")
            case (Inl e)
            with True Some found mk show ?thesis using c2 by (simp add: defs)
          next
            case ms: (Inr missing_sections)
            let ?s3 = "if missing_sections \<noteq> []
                       then record_result_full w ?s2 task_issue
                              (msg_issue_missing_sections (join comma_space missing_sections)) warning
                       else ?s2"
            let ?ml = "filter (\<lambda>label. label \<notin> set (labels t)) (issue_required_labels cfg)"
            let ?s4 = "if ?ml \<noteq> []
                       then record_result_full w ?s3 task_issue
                              (msg_issue_missing_labels (join comma_space ?ml)) warning
                       else ?s3"
            have c3: "log_consistent ?s3" by (rule log_consistent_if_record_full [OF c2])
            have c4: "log_consistent ?s4" by (rule log_consistent_if_record_full [OF c3])
            have "verify_standardization_issue_full w cfg self =
                    (Inr (Some t), record_result_full w ?s4 task_issue
                       (msg_issue_done (str_of_nat (number t))) success)"
              using True Some found mk ms
              by (simp only: defs Let_def split option.case sum.case if_False simp_thms)
            then show ?thesis
              using log_consistent_record_full [OF c4] by simp
          qed
        qed
      qed
    qed
  qed
qed

lemma verify_standardization_pr_spec:
  assumes "log_consistent self"
  shows "log_consistent (snd (verify_standardization_pr w cfg self i)) \<and>
         (fst (verify_standardization_pr w cfg self i) = Inr None \<longrightarrow>
            has_critical_error (snd (verify_standardization_pr w cfg self i)))"
proof -
  let ?s1 = "self\<lparr>requests_made := Suc (requests_made self)\<rparr>"
  obtain ok r where q: "github_api_request_full (get_issues w) self
       (ascii ''pulls?state=all&per_page=50'') = ((ok, r), ?s1)"
    by (rule request_full_cases)
  have c1: "log_consistent ?s1" using assms by simp
  note defs = verify_standardization_pr_def q has_critical_record_full
  show ?thesis
  proof (cases "ok")
    case False
    then show ?thesis using c1 by (simp add: defs log_consistent_record_full)
  next
    case True
    show ?thesis
    proof (cases r)
      case None
      with True show ?thesis using c1 by (simp add: defs)
    next
      case (Some prs)
      show ?thesis
      proof (cases "find_target_pr (pr_title_keywords cfg) prs")
        case None
        with True Some show ?thesis using c1 by (simp add: defs log_consistent_record_full)
      next
        case found: (Some t)
        show ?thesis
        proof (cases "body t")
          case None
          with True Some found show ?thesis using c1 by (simp add: defs)
        next
          case tx: (Some pr_text)
          let ?s2 = "if \<not> str_in (ascii ''#'' @ str_of_nat (number i)) pr_text
                     then record_result_full w ?s1 task_pr msg_pr_not_linked warning
                     else ?s1"
          have c2: "log_consistent ?s2" by (rule log_consistent_if_record_full [OF c1])
          show ?thesis
          proof (cases "missing_from (pr_required_sections cfg) (Some pr_text)")
            case (Inl e)
            with True Some found tx show ?thesis using c2 by (simp add: defs)
          next
            case ms: (Inr missing_sections)
            let ?s3 = "if missing_sections \<noteq> []
                       then record_result_full w ?s2 task_pr
                              (msg_pr_missing_sections (join comma_space missing_sections)) warning
                       else ?s2"
            let ?s4 = "if length (labels t) < pr_min_labels_count cfg
                       then record_result_full w ?s3 task_pr
                              (msg_pr_too_few_labels (str_of_nat (pr_min_labels_count cfg))) warning
                       else ?s3"
            have c3: "log_consistent ?s3" by (rule log_consistent_if_record_full [OF c2])
            have c4: "log_consistent ?s4" by (rule log_consistent_if_record_full [OF c3])
            have "verify_standardization_pr w cfg self i =
                    (Inr (Some t), record_result_full w ?s4 task_pr
                       (msg_pr_done (str_of_nat (number t))) success)"
              using True Some found tx ms
              by (simp only: defs Let_def split option.case sum.case if_False simp_thms)
            then show ?thesis
              using log_consistent_record_full [OF c4] by simp
          qed
        qed
      qed
    qed
  qed
qed

lemma verify_issue_label_completeness_spec:
  "log_consistent self \<Longrightarrow> log_consistent (snd (verify_issue_label_completeness w cfg self i))"
  by (simp add: verify_issue_label_completeness_def Let_def log_consistent_record_full)

lemma verify_pr_core_labels_spec:
  "log_consistent self \<Longrightarrow> log_consistent (snd (verify_pr_core_labels w cfg self pr))"
  by (simp add: verify_pr_core_labels_def Let_def log_consistent_record_full)

lemma verify_issue_comments_spec:
  assumes "log_consistent self"
  shows "log_consistent (snd (verify_issue_comments w self i pr))"
proof -
  obtain ok r where q: "github_api_request_full (get_comments w) self
       (ascii ''issues/'' @ str_of_nat (number i) @ ascii ''/comments'') =
     ((ok, r), self\<lparr>requests_made := Suc (requests_made self)\<rparr>)"
    by (rule request_full_cases)
  show ?thesis
    using assms
    by (simp add: verify_issue_comments_def Let_def q log_consistent_record_full
        split: option.splits prod.splits del: str_of_nat.simps)
qed

lemma verify_document_label_consistency_spec:
  assumes "log_consistent self"
  shows "log_consistent (snd (verify_document_label_consistency w cfg self))"
proof -
  let ?s1 = "self\<lparr>requests_made := Suc (requests_made self)\<rparr>"
  obtain ok r where q: "github_api_request_full (get_contents w) self (contents_endpoint cfg) =
     ((ok, r), ?s1)"
    by (rule request_full_cases)
  obtain ok2 r2 where q2: "github_api_request_full (get_labels w) ?s1 (ascii ''labels?per_page=100'') =
     ((ok2, r2), ?s1\<lparr>requests_made := Suc (requests_made ?s1)\<rparr>)"
    by (rule request_full_cases)
  show ?thesis
    using assms
    by (simp add: verify_document_label_consistency_def Let_def q q2 log_consistent_record_full
        split: option.splits decode_outcome.splits)
qed

lemma run_verification_full_spec:
  assumes "log_consistent self"
  shows "log_consistent (snd (run_verification_full w cfg self)) \<and>
         (\<forall>b. fst (run_verification_full w cfg self) = Inr b \<longrightarrow>
            (b \<longleftrightarrow> \<not> has_critical_error (snd (run_verification_full w cfg self))))"
proof -
  obtain e1 s1 where 1: "setup_environment_full w cfg self = (e1, s1)"
    by (cases "setup_environment_full w cfg self")
  have c1: "log_consistent s1" "\<not> e1 \<longrightarrow> has_critical_error s1"
    using setup_environment_full_spec [OF assms, of w cfg] 1 by simp_all
  obtain e2 s2 where 2: "verify_branch_existence_full w cfg s1 = (e2, s2)"
    by (cases "verify_branch_existence_full w cfg s1")
  have c2: "log_consistent s2" "\<not> e2 \<longrightarrow> has_critical_error s2"
    using verify_branch_existence_full_spec [OF c1(1), of w cfg] 2 by simp_all
  obtain e3 s3 where 3: "verify_label_document_full w cfg s2 = (e3, s3)"
    by (cases "verify_label_document_full w cfg s2")
  have c3: "log_consistent s3" "e3 = Inr False \<longrightarrow> has_critical_error s3"
    using verify_label_document_full_spec [OF c2(1), of w cfg] 3 by simp_all
  obtain e4 s4 where 4: "verify_standardization_issue_full w cfg s3 = (e4, s4)"
    by (cases "verify_standardization_issue_full w cfg s3")
  have c4: "log_consistent s4" "e4 = Inr None \<longrightarrow> has_critical_error s4"
    using verify_standardization_issue_full_spec [OF c3(1), of w cfg] 4 by simp_all
  show ?thesis
  proof (cases "e1 \<and> e2 \<and> e3 = Inr True \<and> (\<exists>i. e4 = Inr (Some i))")
    case False
    then show ?thesis
      using c1 c2 c3 c4
      by (auto simp: run_verification_full_def 1 2 3 4 split: sum.splits option.splits)
  next
    case True
    then obtain i where i: "e4 = Inr (Some i)" by blast
    obtain e5 s5 where 5: "verify_standardization_pr w cfg s4 i = (e5, s5)"
      by (cases "verify_standardization_pr w cfg s4 i")
    have c5: "log_consistent s5" "e5 = Inr None \<longrightarrow> has_critical_error s5"
      using verify_standardization_pr_spec [OF c4(1), of w cfg i] 5 by simp_all
    show ?thesis
    proof (cases "\<exists>pr. e5 = Inr (Some pr)")
      case False
      then show ?thesis
        using True i c5
        by (auto simp: run_verification_full_def 1 2 3 4 5 split: sum.splits option.splits)
    next
      case pr: True
      then obtain pr where pr: "e5 = Inr (Some pr)" by blast
      obtain e6 s6 where 6: "verify_issue_label_completeness w cfg s5 i = (e6, s6)"
        by (cases "verify_issue_label_completeness w cfg s5 i")
      have c6: "log_consistent s6"
        using verify_issue_label_completeness_spec [OF c5(1), of w cfg i] 6 by simp
      obtain e7 s7 where 7: "verify_issue_comments w s6 i pr = (e7, s7)"
        by (cases "verify_issue_comments w s6 i pr")
      have c7: "log_consistent s7"
        using verify_issue_comments_spec [OF c6, of w i pr] 7 by simp
      obtain e8 s8 where 8: "verify_document_label_consistency w cfg s7 = (e8, s8)"
        by (cases "verify_document_label_consistency w cfg s7")
      have c8: "log_consistent s8"
        using verify_document_label_consistency_spec [OF c7, of w cfg] 8 by simp
      obtain e9 s9 where 9: "verify_pr_core_labels w cfg s8 pr = (e9, s9)"
        by (cases "verify_pr_core_labels w cfg s8 pr")
      have c9: "log_consistent s9"
        using verify_pr_core_labels_spec [OF c8, of w cfg pr] 9 by simp
      show ?thesis
        using True i pr c7 c8 c9
        by (auto simp: run_verification_full_def 1 2 3 4 5 6 7 8 9 generate_report_full_def
            Let_def split: sum.splits)
    qed
  qed
qed

lemma fifteen_rows:
  "str_in cfg_table_header fifteen_rows_doc"
  "length (parse_label_table_full fifteen_rows_doc cfg_table_header) = 15"
  by (simp_all add: fifteen_rows_doc_def table_row_def load_configuration_full_def
      parse_label_table_full_def cfg_eval str_eval)

lemma standardization_item_found:
  "find_target_issue_full (issue_title_keywords load_configuration_full) [standardization_item] =
     Some standardization_item"
  "find_target_pr (pr_title_keywords load_configuration_full) [standardization_item] =
     Some standardization_item"
  by (simp_all add: standardization_item_def load_configuration_full_def kw_implement_cn_def
      kw_label_standardization_cn_def str_eval)

lemma cfg_fields:
  "table_header load_configuration_full = cfg_table_header"
  "min_label_count load_configuration_full = 15"
  by (simp_all add: load_configuration_full_def)

lemma example_env_ok_full:
  assumes "env_token w = Some (ascii ''token'')" "env_org w = Some (ascii ''octo'')"
      and "get_info w = (\<lambda>n url hdrs. Response 200 (Json ()))"
  shows "fst (setup_environment_full w cfg s) = True"
    and "has_critical_error (snd (setup_environment_full w cfg s)) = has_critical_error s"
    and "fst (verify_branch_existence_full w cfg s) = True"
    and "has_critical_error (snd (verify_branch_existence_full w cfg s)) = has_critical_error s"
  using assms
  by (simp_all add: setup_environment_full_def verify_branch_existence_full_def
      github_api_request_full_def falsy_def ascii_def Let_def has_critical_record_full
      status_distinct)

lemma warning_only_steps:
  "has_critical_error (snd (verify_issue_label_completeness w cfg s i)) = has_critical_error s"
  "has_critical_error (snd (verify_pr_core_labels w cfg s pr)) = has_critical_error s"
  by (simp_all add: verify_issue_label_completeness_def verify_pr_core_labels_def Let_def
      has_critical_record_full status_distinct)

lemma verify_issue_comments_no_critical:
  "has_critical_error (snd (verify_issue_comments w s i pr)) = has_critical_error s"
proof -
  obtain ok r where q: "github_api_request_full (get_comments w) s
       (ascii ''issues/'' @ str_of_nat (number i) @ ascii ''/comments'') =
     ((ok, r), s\<lparr>requests_made := Suc (requests_made s)\<rparr>)"
    by (rule request_full_cases)
  show ?thesis
    by (simp add: verify_issue_comments_def Let_def q has_critical_record_full status_distinct
        split: option.splits prod.splits del: str_of_nat.simps)
qed

lemma full_pass_steps:
  "fst (verify_label_document_full full_pass_world load_configuration_full s) = Inr True"
  "has_critical_error (snd (verify_label_document_full full_pass_world load_configuration_full s)) =
     has_critical_error s"
  "\<not> isl (fst (verify_issue_comments full_pass_world s i pr))"
  "\<not> isl (fst (verify_document_label_consistency full_pass_world load_configuration_full s))"
  "has_critical_error
     (snd (verify_document_label_consistency full_pass_world load_configuration_full s)) =
     has_critical_error s"
  by (simp_all add: verify_label_document_full_def verify_issue_comments_def
      verify_document_label_consistency_def github_api_request_full_def
      full_pass_world_def example_world_def Let_def cfg_fields fifteen_rows
      has_critical_record_full status_distinct del: str_of_nat.simps)

lemma full_pass_issue:
  "fst (verify_standardization_issue_full full_pass_world load_configuration_full s) =
     Inr (Some standardization_item)"
  "has_critical_error
     (snd (verify_standardization_issue_full full_pass_world load_configuration_full s)) =
     has_critical_error s"
proof -
  have g: "get_issues full_pass_world = (\<lambda>n url hdrs. Response 200 (Json [standardization_item]))"
    by (simp add: full_pass_world_def example_world_def)
  have b: "body standardization_item = Some []" by (simp add: standardization_item_def)
  obtain mk where mk: "missing_from (issue_body_keywords load_configuration_full) (Some []) = Inr mk"
    by (simp add: load_configuration_full_def)
  obtain ms where ms: "missing_from (issue_required_sections load_configuration_full) (Some []) = Inr ms"
    by (simp add: load_configuration_full_def)
  show "fst (verify_standardization_issue_full full_pass_world load_configuration_full s) =
     Inr (Some standardization_item)"
    by (simp add: verify_standardization_issue_full_def github_api_request_full_def g Let_def
        standardization_item_found b mk ms
        del: find_target_issue_full.simps str_of_nat.simps missing_from.simps)
  show "has_critical_error
     (snd (verify_standardization_issue_full full_pass_world load_configuration_full s)) =
     has_critical_error s"
    by (simp add: verify_standardization_issue_full_def github_api_request_full_def g Let_def
        standardization_item_found b mk ms has_critical_record_full status_distinct
        del: find_target_issue_full.simps str_of_nat.simps missing_from.simps)
qed

lemma full_pass_pr:
  "fst (verify_standardization_pr full_pass_world load_configuration_full s i) =
     Inr (Some standardization_item)"
  "has_critical_error
     (snd (verify_standardization_pr full_pass_world load_configuration_full s i)) =
     has_critical_error s"
proof -
  have g: "get_issues full_pass_world = (\<lambda>n url hdrs. Response 200 (Json [standardization_item]))"
    by (simp add: full_pass_world_def example_world_def)
  have b: "body standardization_item = Some []" by (simp add: standardization_item_def)
  obtain ms where ms: "missing_from (pr_required_sections load_configuration_full) (Some []) = Inr ms"
    by (simp add: load_configuration_full_def)
  show "fst (verify_standardization_pr full_pass_world load_configuration_full s i) =
     Inr (Some standardization_item)"
    by (simp add: verify_standardization_pr_def github_api_request_full_def g Let_def
        standardization_item_found b ms
        del: find_target_pr.simps str_of_nat.simps missing_from.simps)
  show "has_critical_error
     (snd (verify_standardization_pr full_pass_world load_configuration_full s i)) =
     has_critical_error s"
    by (simp add: verify_standardization_pr_def github_api_request_full_def g Let_def
        standardization_item_found b ms has_critical_record_full status_distinct
        del: find_target_pr.simps str_of_nat.simps missing_from.simps)
qed

lemma main_full_pass: "fst (main_full full_pass_world) = 0"
proof -
  have env: "env_token full_pass_world = Some (ascii ''token'')"
    "env_org full_pass_world = Some (ascii ''octo'')"
    "get_info full_pass_world = (\<lambda>n url hdrs. Response 200 (Json ()))"
    by (simp_all add: full_pass_world_def example_world_def)
  note e = example_env_ok_full [OF env]
  show ?thesis
    by (simp add: main_full_def run_verification_full_def case_prod_beta sum.case_eq_if
        e full_pass_steps full_pass_issue full_pass_pr warning_only_steps
        verify_issue_comments_no_critical generate_report_full_def Let_def init_def)
qed

lemma main_full_doc_missing:
  "fst (main_full doc_missing_world) = 1"
  "fst (run_verification_full doc_missing_world load_configuration_full init) = Inr False"
proof -
  have env: "env_token doc_missing_world = Some (ascii ''token'')"
    "env_org doc_missing_world = Some (ascii ''octo'')"
    "get_info doc_missing_world = (\<lambda>n url hdrs. Response 200 (Json ()))"
    by (simp_all add: doc_missing_world_def example_world_def)
  note e = example_env_ok_full [OF env]
  have d: "fst (verify_label_document_full doc_missing_world load_configuration_full s) = Inr False"
    for s
    by (simp add: verify_label_document_full_def github_api_request_full_def Let_def
        doc_missing_world_def example_world_def not_found_def)
  show "fst (run_verification_full doc_missing_world load_configuration_full init) = Inr False"
    by (simp add: run_verification_full_def case_prod_beta sum.case_eq_if e d)
  then show "fst (main_full doc_missing_world) = 1"
    by (simp add: main_full_def case_prod_beta)
qed

lemma main_example: "fst (main example_world) = 0"
  by (simp add: main_def run_eval example_world_def status_distinct ascii_def
      parse_example_table find_target_issue_example load_configuration_def
      del: find_target_issue.simps)

lemma main_doc_missing:
  "fst (main doc_missing_world) = 1"
  "\<not> isl (fst (run_verification doc_missing_world load_configuration init))"
  by (simp_all add: main_def run_eval doc_missing_world_def example_world_def status_distinct
      ascii_def)

text \<open>
  C1, as claimed, fails: without a token in the environment the simplified script
  exits with code 1 and has recorded no result at all.
\<close>

theorem silent_environment_failure_exits_1:
  "fst (main silent_env_world) = 1 \<and> verification_results (snd (main silent_env_world)) = []"
  by (simp add: main_def run_verification_def setup_environment_def silent_env_world_def
      example_world_def falsy_def init_def)

text \<open>
  C1, amended.  In both scripts the exit code is 0 or 1, and exit code 0 implies that
  no critical result was recorded.  When the run ends without an uncaught exception:
  the full script exits with 0 exactly when no critical result was recorded (and with
  1 otherwise); the simplified script exits with 1 exactly when a critical result was
  recorded or the environment check failed, and a failed environment check leaves the
  log empty.  Warnings do not enter.
\<close>

theorem exit_code_policy:
  "(fst (main w) = 0 \<or> fst (main w) = 1) \<and>
   (fst (main w) = 0 \<longrightarrow>
      critical \<notin> set (map status (verification_results (snd (main w))))) \<and>
   (fst (run_verification w load_configuration init) = Inr b \<longrightarrow>
      (fst (main w) = 1 \<longleftrightarrow>
         critical \<in> set (map status (verification_results (snd (main w)))) \<or>
         \<not> fst (setup_environment w load_configuration init))) \<and>
   (\<not> fst (setup_environment w load_configuration init) \<longrightarrow>
      verification_results (snd (main w)) = []) \<and>
   (fst (main_full w) = 0 \<or> fst (main_full w) = 1) \<and>
   (fst (main_full w) = 0 \<longrightarrow>
      critical \<notin> set (map status (verification_results (snd (main_full w))))) \<and>
   (fst (run_verification_full w load_configuration_full init) = Inr b' \<longrightarrow>
      (fst (main_full w) = 0 \<longleftrightarrow>
         critical \<notin> set (map status (verification_results (snd (main_full w))))))"
proof -
  obtain r v where rv: "run_verification w load_configuration init = (r, v)"
    by (cases "run_verification w load_configuration init")
  obtain r' v' where rv': "run_verification_full w load_configuration_full init = (r', v')"
    by (cases "run_verification_full w load_configuration_full init")
  from run_verification_spec [OF log_consistent_init, of w load_configuration] rv
  have s: "log_consistent v"
    "\<And>b. r = Inr b \<Longrightarrow> (b \<longleftrightarrow> fst (setup_environment w load_configuration init) \<and> \<not> has_critical_error v)"
    by simp_all
  from run_verification_full_spec [OF log_consistent_init, of w load_configuration_full] rv'
  have f: "log_consistent v'" "\<And>b. r' = Inr b \<Longrightarrow> (b \<longleftrightarrow> \<not> has_critical_error v')"
    by simp_all
  have m: "main w = (case r of Inr ok \<Rightarrow> (if ok then 0 else 1, v) | Inl e \<Rightarrow> (1, v))"
    by (simp add: main_def rv split: sum.splits)
  have m': "main_full w = (case r' of Inr ok \<Rightarrow> (if ok then 0 else 1, v') | Inl e \<Rightarrow> (1, v'))"
    by (simp add: main_full_def rv' split: sum.splits)
  have q: "verification_results (snd (main w)) = []"
    if "\<not> fst (setup_environment w load_configuration init)"
  proof -
    obtain e1 s1 where 1: "setup_environment w load_configuration init = (e1, s1)"
      by (cases "setup_environment w load_configuration init")
    with that have e1: "\<not> e1" by simp
    have "verification_results s1 = []"
      using 1 e1
      by (auto simp: setup_environment_def github_api_request_def Let_def init_def
          split: if_splits http_outcome.splits json_body.splits)
    with 1 e1 show ?thesis
      by (simp add: main_def run_verification_def)
  qed
  have p: "(fst (main w) = 0 \<or> fst (main w) = 1) \<and>
     (fst (main w) = 0 \<longrightarrow>
        critical \<notin> set (map status (verification_results (snd (main w))))) \<and>
     (fst (run_verification w load_configuration init) = Inr b \<longrightarrow>
        (fst (main w) = 1 \<longleftrightarrow>
           critical \<in> set (map status (verification_results (snd (main w)))) \<or>
           \<not> fst (setup_environment w load_configuration init))) \<and>
     (fst (main_full w) = 0 \<or> fst (main_full w) = 1) \<and>
     (fst (main_full w) = 0 \<longrightarrow>
        critical \<notin> set (map status (verification_results (snd (main_full w))))) \<and>
     (fst (run_verification_full w load_configuration_full init) = Inr b' \<longrightarrow>
        (fst (main_full w) = 0 \<longleftrightarrow>
           critical \<notin> set (map status (verification_results (snd (main_full w))))))"
    using s f
    by (cases r; cases r') (auto simp: m m' rv rv' log_consistent_def)
  from p q show ?thesis by blast
qed

theorem exit_code_policy_witness:
  "fst (main example_world) = 0 \<and>
   critical \<notin> set (map status (verification_results (snd (main example_world)))) \<and>
   fst (main doc_missing_world) = 1 \<and>
   critical \<in> set (map status (verification_results (snd (main doc_missing_world)))) \<and>
   fst (main silent_env_world) = 1 \<and>
   \<not> fst (setup_environment silent_env_world load_configuration init) \<and>
   verification_results (snd (main silent_env_world)) = [] \<and>
   fst (main_full full_pass_world) = 0 \<and>
   critical \<notin> set (map status (verification_results (snd (main_full full_pass_world)))) \<and>
   fst (main_full doc_missing_world) = 1 \<and>
   critical \<in> set (map status (verification_results (snd (main_full doc_missing_world))))"
proof -
  have env: "fst (setup_environment doc_missing_world load_configuration init)"
    using example_env_ok(1) [of doc_missing_world load_configuration init]
    by (simp add: doc_missing_world_def example_world_def)
  have silent: "fst (main silent_env_world) = 1"
    "\<not> fst (setup_environment silent_env_world load_configuration init)"
    by (simp_all add: main_def run_verification_def setup_environment_def silent_env_world_def
        example_world_def falsy_def init_def)
  have a: "critical \<notin> set (map status (verification_results (snd (main example_world))))"
    using exit_code_policy [of example_world] main_example by blast
  have b: "critical \<in> set (map status (verification_results (snd (main doc_missing_world))))"
    using exit_code_policy [of doc_missing_world
            "projr (fst (run_verification doc_missing_world load_configuration init))"]
          main_doc_missing env
    by (metis sum.collapse(2))
  have c: "critical \<notin> set (map status (verification_results (snd (main_full full_pass_world))))"
    using exit_code_policy [of full_pass_world] main_full_pass by blast
  have d: "critical \<in> set (map status (verification_results (snd (main_full doc_missing_world))))"
    using exit_code_policy [of doc_missing_world _ False] main_full_doc_missing
    by simp
  have e: "verification_results (snd (main silent_env_world)) = []"
    using exit_code_policy [of silent_env_world] silent(2) by blast
  from a b c d e silent main_example main_doc_missing(1) main_full_pass main_full_doc_missing(1)
  show ?thesis by blast
qed

end
